theory Spec2Isabelle
  imports Main "HOL-Library.Sublist" "HOL-Library.Multiset"
begin

section \<open>Strings, numbers and URL encoding\<close>

text \<open>
  JavaScript strings are modelled as \<^typ>\<open>string\<close>, read as the UTF-8 bytes of the text.
  \<open>Date.now()\<close> is a number of milliseconds since the epoch, a \<^typ>\<open>nat\<close>; a template
  literal prints it in decimal.
\<close>

definition digit_char :: "nat \<Rightarrow> char" where
  "digit_char d = ''0123456789'' ! d"

fun Number_toString :: "nat \<Rightarrow> string" where
  "Number_toString n = (if n < 10 then [digit_char n]
                        else Number_toString (n div 10) @ [digit_char (n mod 10)])"

declare Number_toString.simps [simp del]

text \<open>
  \<open>encodeURIComponent\<close> keeps the unreserved characters
  \<open>A-Z a-z 0-9 - _ . ! ~ * ' ( )\<close> and writes every other byte as \<open>%XX\<close> with upper-case
  hexadecimal digits.
\<close>

definition uri_unreserved :: "char \<Rightarrow> bool" where
  "uri_unreserved c =
     (let n = (of_char c :: nat) in
        (65 \<le> n \<and> n \<le> 90) \<or> (97 \<le> n \<and> n \<le> 122) \<or> (48 \<le> n \<and> n \<le> 57)
        \<or> n \<in> {45, 95, 46, 33, 126, 42, 39, 40, 41})"

definition hex_digit :: "nat \<Rightarrow> char" where
  "hex_digit d = ''0123456789ABCDEF'' ! d"

definition percent_encode :: "char \<Rightarrow> string" where
  "percent_encode c =
     (let n = (of_char c :: nat) in [CHR ''%'', hex_digit (n div 16), hex_digit (n mod 16)])"

definition encodeURIComponent :: "string \<Rightarrow> string" where
  "encodeURIComponent s =
     concat (map (\<lambda>c. if uri_unreserved c then [c] else percent_encode c) s)"

text \<open>\<open>String.prototype.endsWith\<close> and \<open>toLowerCase\<close> (ASCII letters).\<close>

definition endsWith :: "string \<Rightarrow> string \<Rightarrow> bool" where
  "endsWith s suf = suffix suf s"

definition lower_char :: "char \<Rightarrow> char" where
  "lower_char c =
     (case map_of (zip ''ABCDEFGHIJKLMNOPQRSTUVWXYZ'' ''abcdefghijklmnopqrstuvwxyz'') c of
        Some l \<Rightarrow> l
      | None \<Rightarrow> c)"

definition toLowerCase :: "string \<Rightarrow> string" where
  "toLowerCase s = map lower_char s"

section \<open>The \<open>path\<close> module (POSIX)\<close>

text \<open>
  \<open>server.js\<close> builds every path with \<open>path.join\<close> and takes names apart with
  \<open>path.extname\<close>, \<open>path.parse\<close> and \<open>path.dirname\<close>. These are Node's library
  functions; the definitions below follow their POSIX behaviour.
\<close>

definition split_slash :: "string \<Rightarrow> string list" where
  "split_slash s = foldr (\<lambda>c acc. if c = CHR ''/'' then [] # acc
                                   else (c # hd acc) # tl acc) s [[]]"

fun normalize_segments :: "bool \<Rightarrow> string list \<Rightarrow> string list \<Rightarrow> string list" where
  "normalize_segments allowAboveRoot [] stack = rev stack"
| "normalize_segments allowAboveRoot (seg # segs) stack =
     (if seg = [] \<or> seg = ''.'' then normalize_segments allowAboveRoot segs stack
      else if seg = ''..'' then
        (case stack of
           [] \<Rightarrow> normalize_segments allowAboveRoot segs (if allowAboveRoot then [''..''] else [])
         | seg0 # rest \<Rightarrow>
             if seg0 = ''..'' then normalize_segments allowAboveRoot segs (''..'' # stack)
             else normalize_segments allowAboveRoot segs rest)
      else normalize_segments allowAboveRoot segs (seg # stack))"

definition join_slash :: "string list \<Rightarrow> string" where
  "join_slash segs = (case segs of [] \<Rightarrow> [] | s # ss \<Rightarrow> s @ concat (map (\<lambda>t. CHR ''/'' # t) ss))"

definition path_normalize :: "string \<Rightarrow> string" where
  "path_normalize p =
     (if p = [] then ''.''
      else
        let isAbsolute = (hd p = CHR ''/'');
            trailingSeparator = (last p = CHR ''/'');
            body = join_slash (normalize_segments (\<not> isAbsolute) (split_slash p) [])
        in if body = [] then
             (if isAbsolute then ''/'' else if trailingSeparator then ''./'' else ''.'')
           else (if isAbsolute then ''/'' else []) @ body
                @ (if trailingSeparator then ''/'' else []))"

definition path_join :: "string \<Rightarrow> string \<Rightarrow> string" where
  "path_join a b =
     (if a = [] \<and> b = [] then ''.''
      else if a = [] then path_normalize b
      else if b = [] then path_normalize a
      else path_normalize (a @ ''/'' @ b))"

definition path_basename :: "string \<Rightarrow> string" where
  "path_basename p =
     rev (takeWhile (\<lambda>c. c \<noteq> CHR ''/'') (dropWhile (\<lambda>c. c = CHR ''/'') (rev p)))"

definition path_dirname :: "string \<Rightarrow> string" where
  "path_dirname p =
     (if p = [] then ''.''
      else
        let hasRoot = (hd p = CHR ''/'');
            r = dropWhile (\<lambda>c. c = CHR ''/'') (rev (tl p));
            upto_slash = dropWhile (\<lambda>c. c \<noteq> CHR ''/'') r
        in if upto_slash = [] then (if hasRoot then ''/'' else ''.'')
           else if hasRoot \<and> tl upto_slash = [] then ''//''
           else hd p # rev (tl upto_slash))"

definition path_extname :: "string \<Rightarrow> string" where
  "path_extname p =
     (let b = path_basename p;
          r = rev b;
          after_dot = takeWhile (\<lambda>c. c \<noteq> CHR ''.'') r;
          upto_dot = dropWhile (\<lambda>c. c \<noteq> CHR ''.'') r
      in if upto_dot = [] \<or> tl upto_dot = [] \<or> b = ''..'' then []
         else CHR ''.'' # rev after_dot)"

definition path_parse_name :: "string \<Rightarrow> string" where
  "path_parse_name p =
     (let b = path_basename p in take (length b - length (path_extname p)) b)"

section \<open>The filesystem\<close>

text \<open>
  The disk is an association list from absolute, normalised paths to nodes, in directory
  order. A node is a regular file or a directory and carries the two \<open>fs.Stats\<close> fields
  the server reads (\<open>stats.size\<close> is \<open>size_bytes\<close> here). Lookups take the first entry
  of a path.
\<close>

record node =
  isDirectory :: bool
  size_bytes :: nat
  birthtime :: nat

type_synonym filesystem = "(string \<times> node) list"

text \<open>
  A failing \<open>fs\<close> call throws an error that names the condition, the system call and
  the path; its message reads, on Linux,
  \<open>EISDIR: illegal operation on a directory, unlink '/srv/output/x'\<close>.
\<close>

datatype errno = ENOENT | EISDIR | ENOTDIR

datatype fs_error = Fs_error errno string string

definition statSync :: "string \<Rightarrow> filesystem \<Rightarrow> fs_error + node" where
  "statSync p disk =
     (case map_of disk p of None \<Rightarrow> Inl (Fs_error ENOENT ''stat'' p) | Some n \<Rightarrow> Inr n)"

definition existsSync :: "string \<Rightarrow> filesystem \<Rightarrow> bool" where
  "existsSync p disk = (map_of disk p \<noteq> None)"

definition remove_entry :: "string \<Rightarrow> filesystem \<Rightarrow> filesystem" where
  "remove_entry p disk = filter (\<lambda>e. fst e \<noteq> p) disk"

text \<open>\<open>fs.unlinkSync\<close> removes a regular file and throws on a missing path or a directory.\<close>

definition unlinkSync :: "string \<Rightarrow> filesystem \<Rightarrow> fs_error + filesystem" where
  "unlinkSync p disk =
     (case map_of disk p of
        None \<Rightarrow> Inl (Fs_error ENOENT ''unlink'' p)
      | Some n \<Rightarrow>
          if isDirectory n then Inl (Fs_error EISDIR ''unlink'' p)
          else Inr (remove_entry p disk))"

text \<open>
  A path lies inside a directory when it is the directory or continues it after a slash;
  the root and any other directory written with a final slash are continued directly.
\<close>

definition inside :: "string \<Rightarrow> string \<Rightarrow> bool" where
  "inside dir p =
     (p = dir \<or>
      prefix (if dir \<noteq> [] \<and> last dir = CHR ''/'' then dir else dir @ ''/'') p)"

text \<open>\<open>fs.rmSync(p, {recursive: true, force: true})\<close> removes \<open>p\<close> and all below it.\<close>

definition rmSync_recursive_force :: "string \<Rightarrow> filesystem \<Rightarrow> filesystem" where
  "rmSync_recursive_force p disk = filter (\<lambda>e. \<not> inside p (fst e)) disk"

text \<open>\<open>fs.mkdirSync(p, {recursive: true})\<close>; the entry of a new directory.\<close>

definition mkdirSync_recursive :: "nat \<Rightarrow> string \<Rightarrow> filesystem \<Rightarrow> filesystem" where
  "mkdirSync_recursive t p disk =
     (if existsSync p disk then disk
      else disk @ [(p, \<lparr>isDirectory = True, size_bytes = 0, birthtime = t\<rparr>)])"

text \<open>
  An entry named \<open>n\<close> of directory \<open>dir\<close> is the node at \<open>path.join(dir, n)\<close>;
  \<open>fs.readdirSync\<close> returns the names in directory order and throws when \<open>dir\<close> is
  missing or is no directory.
\<close>

definition entry_name :: "string \<Rightarrow> string \<Rightarrow> bool" where
  "entry_name dir p =
     (let n = path_basename p
      in n \<noteq> [] \<and> n \<noteq> ''.'' \<and> n \<noteq> ''..'' \<and> p \<noteq> dir \<and> path_join dir n = p)"

definition readdirSync :: "string \<Rightarrow> filesystem \<Rightarrow> fs_error + string list" where
  "readdirSync dir disk =
     (case map_of disk dir of
        None \<Rightarrow> Inl (Fs_error ENOENT ''scandir'' dir)
      | Some n \<Rightarrow>
          if isDirectory n
          then Inr (map path_basename (filter (entry_name dir) (remdups (map fst disk))))
          else Inl (Fs_error ENOTDIR ''scandir'' dir))"

definition errno_text :: "errno \<Rightarrow> string" where
  "errno_text e =
     (case e of ENOENT \<Rightarrow> ''ENOENT: no such file or directory''
              | EISDIR \<Rightarrow> ''EISDIR: illegal operation on a directory''
              | ENOTDIR \<Rightarrow> ''ENOTDIR: not a directory'')"

fun fs_error_message :: "fs_error \<Rightarrow> string" where
  "fs_error_message (Fs_error e syscall p) =
     errno_text e @ '', '' @ syscall @ '' '' @ [CHR 0x27] @ p @ [CHR 0x27]"

section \<open>Configuration, requests and responses\<close>

text \<open>
  The constants of lines 11--18 of \<open>server.js\<close>, read from the environment at start-up.
  \<open>UPLOAD_DIR\<close> and \<open>OUTPUT_DIR\<close> are results of \<open>path.join\<close>.
\<close>

record config =
  DOMAIN :: string
  MAX_FILE_SIZE :: nat
  UPLOAD_DIR :: string
  OUTPUT_DIR :: string
  ZSIGN_PATH :: string

datatype json =
    JString string
  | JNumber nat
  | JBool bool
  | JDate nat
  | JArray "json list"
  | JObject "(string \<times> json) list"

datatype payload = Json json | Text string

record response =
  status :: nat
  contentType :: string
  payload :: payload

definition res_json :: "nat \<Rightarrow> json \<Rightarrow> response" where
  "res_json code j = \<lparr>status = code, contentType = ''application/json'', payload = Json j\<rparr>"

text \<open>
  The values multer stores in \<open>req.body\<close>: a text field sent once under a plain name is a
  string, a field sent several times or under a name ending in \<open>[]\<close> is an array
  (\<open>None\<close> is a hole), and a field sent under a bracketed name is an object without
  prototype. \<open>req.body\<close> is such an object; an absent property reads as \<open>undefined\<close>. For a
  request that is not multipart \<open>req.body\<close> comes from the JSON parser and \<open>req.files\<close> is
  absent, so that the handler answers before it reads any field.
\<close>

datatype jsval =
    JSString string
  | JSArray "jsval option list"
  | JSObject "(string \<times> jsval) list"

type_synonym form_body = "(string \<times> jsval) list"

definition field :: "string \<Rightarrow> form_body \<Rightarrow> jsval option" where
  "field k b = map_of b k"

text \<open>Truthiness: \<open>undefined\<close> and the empty string are falsy, arrays and objects truthy.\<close>

definition truthy :: "jsval option \<Rightarrow> bool" where
  "truthy v = (case v of None \<Rightarrow> False | Some (JSString s) \<Rightarrow> s \<noteq> [] | Some other \<Rightarrow> True)"

text \<open>
  Conversion to a string, as a template literal does it: an array is its elements joined
  by commas, a hole counting as the empty string; an object without prototype has no
  \<open>toString\<close> and the conversion throws a \<open>TypeError\<close> (\<open>None\<close>).
\<close>

fun join_elements :: "string option list \<Rightarrow> string option" where
  "join_elements [] = Some []"
| "join_elements [x] = x"
| "join_elements (x # y # ys) =
     (case x of
        None \<Rightarrow> None
      | Some s \<Rightarrow> (case join_elements (y # ys) of None \<Rightarrow> None | Some t \<Rightarrow> Some (s @ '','' @ t)))"

fun js_toString :: "jsval \<Rightarrow> string option" where
  "js_toString (JSString s) = Some s"
| "js_toString (JSArray xs) =
     join_elements (map (\<lambda>x. case x of None \<Rightarrow> Some [] | Some v \<Rightarrow> js_toString v) xs)"
| "js_toString (JSObject kv) = None"

definition template_text :: "jsval option \<Rightarrow> string option" where
  "template_text v = (case v of None \<Rightarrow> Some ''undefined'' | Some x \<Rightarrow> js_toString x)"

text \<open>
  The file objects multer hands to the handler and the parsed request. \<open>req.files\<close> is
  absent when the request was not multipart, and \<open>req.files[kind]\<close> is absent or an array.
\<close>

record upfile =
  originalname :: string
  path :: string
  size_f :: nat

record form_files =
  ipa :: "upfile list option"
  certificate :: "upfile list option"
  provision :: "upfile list option"

record request =
  body :: form_body
  files :: "form_files option"

text \<open>
  What \<open>exec\<close> passes to its callback: \<open>error\<close> is \<open>null\<close> on exit status zero and an
  \<open>Error\<close> with a message otherwise. The external tool is a function of the command line
  and the disk.
\<close>

record exec_result =
  error :: "string option"
  stdout :: string
  stderr :: string

type_synonym tool = "string \<Rightarrow> filesystem \<Rightarrow> exec_result \<times> filesystem"

text \<open>The clock and the source of fresh identifiers (\<open>Date.now()\<close>, \<open>uuidv4()\<close>).\<close>

record env =
  now :: nat
  uuidv4 :: "nat \<Rightarrow> string"

section \<open>Upload intake (lines 43--70)\<close>

text \<open>
  A multipart request is a list of parts in the order of the wire: text fields and files.
  A file part carries the field it was sent under, the client's file name (without
  directories) and its length in bytes.
\<close>

datatype part = Field string string | FilePart string string nat

datatype upload_error =
    LIMIT_UNEXPECTED_FILE
  | LIMIT_FILE_SIZE
  | INVALID_FILE_TYPE
  | WRITE_FAILED fs_error

definition allowedExtensions :: "string list" where
  "allowedExtensions = [''.ipa'', ''.p12'', ''.mobileprovision'']"

definition fileFilter :: "string \<Rightarrow> bool" where
  "fileFilter name =
     (let ext = toLowerCase (path_extname name) in ext \<in> set allowedExtensions)"

subsection \<open>Text fields\<close>

text \<open>
  Multer adds every text field to \<open>req.body\<close> with \<open>appendField\<close>, which reads the field
  name as a path: a first key, then bracket groups, \<open>[12]\<close> an array index, \<open>[x]\<close> an object
  key, and a final \<open>[]\<close> asks to append. A name that does not parse is taken whole as a
  key.
\<close>

datatype seg = Name string | Index nat

fun brackets :: "string option \<Rightarrow> string \<Rightarrow> string list option" where
  "brackets None [] = Some []"
| "brackets (Some g) [] = None"
| "brackets None (c # cs) = (if c = CHR ''['' then brackets (Some []) cs else None)"
| "brackets (Some g) (c # cs) =
     (if c = CHR '']''
      then (case brackets None cs of None \<Rightarrow> None | Some gs \<Rightarrow> Some (rev g # gs))
      else brackets (Some (c # g)) cs)"

definition is_digit :: "char \<Rightarrow> bool" where
  "is_digit c = (c \<in> set ''0123456789'')"

definition parseInt :: "string \<Rightarrow> nat" where
  "parseInt ds = foldl (\<lambda>n c. 10 * n + (of_char c - 48)) 0 ds"

definition seg_of :: "string \<Rightarrow> seg" where
  "seg_of g = (if list_all is_digit g then Index (parseInt g) else Name g)"

definition parsePath :: "string \<Rightarrow> seg list \<times> bool" where
  "parsePath key =
     (let firstKey = takeWhile (\<lambda>c. c \<noteq> CHR ''['') key;
          failure = ([Name key], False)
      in if firstKey = [] then failure
         else
           case brackets None (dropWhile (\<lambda>c. c \<noteq> CHR ''['') key) of
             None \<Rightarrow> failure
           | Some groups \<Rightarrow>
               if groups \<noteq> [] \<and> [] \<in> set (butlast groups) then failure
               else (Name firstKey # map seg_of (filter (\<lambda>g. g \<noteq> []) groups),
                     groups \<noteq> [] \<and> last groups = []))"

definition obj_put :: "(string \<times> jsval) list \<Rightarrow> string \<Rightarrow> jsval \<Rightarrow> (string \<times> jsval) list" where
  "obj_put kv k v =
     (if k \<in> fst ` set kv then map (\<lambda>e. if fst e = k then (k, v) else e) kv
      else kv @ [(k, v)])"

definition arr_put :: "jsval option list \<Rightarrow> nat \<Rightarrow> jsval \<Rightarrow> jsval option list" where
  "arr_put xs i v =
     (if i < length xs then xs[i := Some v]
      else xs @ replicate (i - length xs) None @ [Some v])"

fun ctx_get :: "jsval \<Rightarrow> seg \<Rightarrow> jsval option" where
  "ctx_get (JSObject kv) (Name k) = map_of kv k"
| "ctx_get (JSObject kv) (Index i) = map_of kv (Number_toString i)"
| "ctx_get (JSArray xs) (Index i) = (if i < length xs then xs ! i else None)"
| "ctx_get (JSArray xs) (Name k) = None"
| "ctx_get (JSString s) k = None"

fun ctx_put :: "jsval \<Rightarrow> seg \<Rightarrow> jsval \<Rightarrow> jsval" where
  "ctx_put (JSObject kv) (Name k) v = JSObject (obj_put kv k v)"
| "ctx_put (JSObject kv) (Index i) v = JSObject (obj_put kv (Number_toString i) v)"
| "ctx_put (JSArray xs) (Index i) v = JSArray (arr_put xs i v)"
| "ctx_put (JSArray xs) (Name k) v = JSArray xs"
| "ctx_put (JSString s) k v = JSString s"

text \<open>
  \<open>setLastValue\<close> on a slot that holds a value: an array takes one more element, a string
  becomes the array of itself and the new value, and an object takes the value under its
  empty key, in the same way.
\<close>

fun last_into :: "jsval \<Rightarrow> string \<Rightarrow> jsval" where
  "last_into (JSString s) v = JSArray [Some (JSString s), Some (JSString v)]"
| "last_into (JSArray xs) v = JSArray (xs @ [Some (JSString v)])"
| "last_into (JSObject kv) v =
     (if [] \<in> fst ` set kv
      then JSObject (map (\<lambda>e. if fst e = [] then ([], last_into (snd e) v) else e) kv)
      else JSObject (kv @ [([], JSString v)]))"

definition indexed :: "jsval option list \<Rightarrow> (string \<times> jsval) list" where
  "indexed xs =
     concat (map (\<lambda>(i, x). case x of None \<Rightarrow> [] | Some item \<Rightarrow> [(Number_toString i, item)])
               (zip [0..<length xs] xs))"

text \<open>\<open>setValue\<close> on a step that is not the last: the context the next step works in.\<close>

definition next_context :: "jsval option \<Rightarrow> seg \<Rightarrow> jsval" where
  "next_context cur nxt =
     (case cur of
        None \<Rightarrow> (case nxt of Index i \<Rightarrow> JSArray [] | Name k \<Rightarrow> JSObject [])
      | Some (JSObject kv) \<Rightarrow> JSObject kv
      | Some (JSArray xs) \<Rightarrow>
          (case nxt of Index i \<Rightarrow> JSArray xs | Name k \<Rightarrow> JSObject (indexed xs))
      | Some (JSString s) \<Rightarrow> JSObject [([], JSString s)])"

fun append_path :: "seg list \<Rightarrow> bool \<Rightarrow> jsval \<Rightarrow> string \<Rightarrow> jsval" where
  "append_path [] app ctx v = ctx"
| "append_path [s] app ctx v =
     ctx_put ctx s
       (case ctx_get ctx s of
          None \<Rightarrow> (if app then JSArray [Some (JSString v)] else JSString v)
        | Some cur \<Rightarrow> last_into cur v)"
| "append_path (s # t # rest) app ctx v =
     ctx_put ctx s (append_path (t # rest) app (next_context (ctx_get ctx s) t) v)"

definition appendField :: "form_body \<Rightarrow> string \<Rightarrow> string \<Rightarrow> form_body" where
  "appendField store key v =
     (case parsePath key of
        (segs, app) \<Rightarrow>
          (case append_path segs app (JSObject store) v of
             JSObject kv \<Rightarrow> kv
           | other \<Rightarrow> store))"

subsection \<open>Files\<close>

record intake =
  in_body :: form_body
  in_files :: form_files
  in_disk :: filesystem
  in_uuids :: nat

text \<open>
  The \<open>destination\<close> callback of the disk storage: \<open>req.body.sessionId || uuidv4()\<close>
  names the directory, which is created when missing. It runs once for every file part.
  \<open>path.join\<close> throws a \<open>TypeError\<close> when the session identifier is an array or an object.
\<close>

definition destination :: "config \<Rightarrow> env \<Rightarrow> intake \<Rightarrow> string + string \<times> intake" where
  \<open>destination cfg e st =
     (let given = field ''sessionId'' (in_body st);
          fresh = \<not> truthy given;
          sessionId = (if fresh then Some (JSString (uuidv4 e (in_uuids st))) else given)
      in case sessionId of
           Some (JSString sid) \<Rightarrow>
             let sessionDir = path_join (UPLOAD_DIR cfg) sid;
                 d = (if \<not> existsSync sessionDir (in_disk st)
                      then mkdirSync_recursive (now e) sessionDir (in_disk st)
                      else in_disk st)
             in Inr (sessionDir,
                     st\<lparr>in_disk := d,
                        in_uuids := (if fresh then Suc (in_uuids st) else in_uuids st)\<rparr>)
         | other \<Rightarrow> Inl ''The "path" argument must be of type string'')\<close>

definition filename_cb :: "string \<Rightarrow> string" where
  "filename_cb original = original"

definition files_of :: "string \<Rightarrow> form_files \<Rightarrow> (upfile list option) option" where
  "files_of k fl =
     (if k = ''ipa'' then Some (ipa fl)
      else if k = ''certificate'' then Some (certificate fl)
      else if k = ''provision'' then Some (provision fl)
      else None)"

definition add_file :: "string \<Rightarrow> upfile \<Rightarrow> form_files \<Rightarrow> form_files" where
  "add_file k f fl =
     (if k = ''ipa'' then fl\<lparr>ipa := Some [f]\<rparr>
      else if k = ''certificate'' then fl\<lparr>certificate := Some [f]\<rparr>
      else fl\<lparr>provision := Some [f]\<rparr>)"

definition write_file :: "nat \<Rightarrow> string \<Rightarrow> nat \<Rightarrow> filesystem \<Rightarrow> fs_error + filesystem" where
  "write_file t p len disk =
     (case map_of disk p of
        Some n \<Rightarrow>
          if isDirectory n then Inl (Fs_error EISDIR ''open'' p)
          else Inr (map (\<lambda>e. if fst e = p then (p, n\<lparr>size_bytes := len\<rparr>) else e) disk)
      | None \<Rightarrow> Inr (disk @ [(p, \<lparr>isDirectory = False, size_bytes = len, birthtime = t\<rparr>)]))"

text \<open>
  One file part, as multer's \<open>fields\<close> middleware treats it: a part without a file name is
  skipped; a file under an unknown field or beyond \<open>maxCount: 1\<close> is refused; then
  \<open>fileFilter\<close> decides; then the storage asks \<open>destination\<close> and \<open>filename\<close> and writes to
  their join; a file longer than \<open>MAX_FILE_SIZE\<close> fails the request. A failing request
  unlinks the files stored so far and leaves their directories. An exception thrown by
  \<open>destination\<close> is caught by nobody.
\<close>

datatype upload_failure =
    Aborted upload_error filesystem
  | Crashed string filesystem

definition stored :: "form_files \<Rightarrow> upfile list" where
  "stored fl = concat (map (\<lambda>x. case x of None \<Rightarrow> [] | Some fs \<Rightarrow> fs)
                         [ipa fl, certificate fl, provision fl])"

definition abort_upload :: "upload_error \<Rightarrow> intake \<Rightarrow> upload_failure" where
  "abort_upload err st =
     Aborted err (foldr remove_entry (map path (stored (in_files st))) (in_disk st))"

definition handle_file ::
  "config \<Rightarrow> env \<Rightarrow> string \<Rightarrow> string \<Rightarrow> nat \<Rightarrow> intake \<Rightarrow> upload_failure + intake" where
  "handle_file cfg e fld original len st =
     (if original = [] then Inr st
      else
        case files_of fld (in_files st) of
          None \<Rightarrow> Inl (abort_upload LIMIT_UNEXPECTED_FILE st)
        | Some (Some already) \<Rightarrow> Inl (abort_upload LIMIT_UNEXPECTED_FILE st)
        | Some None \<Rightarrow>
            if \<not> fileFilter original then Inl (abort_upload INVALID_FILE_TYPE st)
            else
              case destination cfg e st of
                Inl message \<Rightarrow> Inl (Crashed message (in_disk st))
              | Inr (dir, st1) \<Rightarrow>
                  let finalPath = path_join dir (filename_cb original)
                  in case write_file (now e) finalPath len (in_disk st1) of
                       Inl err \<Rightarrow> Inl (abort_upload (WRITE_FAILED err) st1)
                     | Inr d \<Rightarrow>
                         if MAX_FILE_SIZE cfg < len
                         then Inl (abort_upload LIMIT_FILE_SIZE
                                     (st1\<lparr>in_disk := remove_entry finalPath d\<rparr>))
                         else
                           Inr (st1\<lparr>in_disk := d,
                                    in_files := add_file fld
                                      \<lparr>originalname = original, path = finalPath,
                                       size_f = len\<rparr>
                                      (in_files st1)\<rparr>))"

fun multer_fields :: "config \<Rightarrow> env \<Rightarrow> part list \<Rightarrow> intake \<Rightarrow> upload_failure + intake" where
  "multer_fields cfg e [] st = Inr st"
| "multer_fields cfg e (Field k v # ps) st =
     multer_fields cfg e ps (st\<lparr>in_body := appendField (in_body st) k v\<rparr>)"
| "multer_fields cfg e (FilePart fld original len # ps) st =
     (case handle_file cfg e fld original len st of
        Inl failure \<Rightarrow> Inl failure
      | Inr st' \<Rightarrow> multer_fields cfg e ps st')"

definition upload_error_message :: "upload_error \<Rightarrow> string" where
  "upload_error_message err =
     (case err of
        LIMIT_UNEXPECTED_FILE \<Rightarrow> ''Unexpected field''
      | LIMIT_FILE_SIZE \<Rightarrow> ''File too large''
      | INVALID_FILE_TYPE \<Rightarrow> ''Invalid file type. Allowed: .ipa, .p12, .mobileprovision''
      | WRITE_FAILED x \<Rightarrow> fs_error_message x)"

section \<open>\<open>POST /api/sign\<close> (lines 72--161)\<close>

datatype outcome = Sent response | Uncaught string

record run =
  outcome :: outcome
  disk :: filesystem
  executed :: "string list"

definition dq :: string where
  "dq = [CHR 0x22]"

text \<open>
  Lines 97--110: the command line, grown by \<open>+=\<close>. Printing a field that is an object
  throws a \<open>TypeError\<close> (\<open>None\<close>).
\<close>

definition zsign_command ::
  "config \<Rightarrow> form_body \<Rightarrow> upfile \<Rightarrow> upfile \<Rightarrow> upfile \<Rightarrow> string \<Rightarrow> string option" where
  "zsign_command cfg b ipaFile certFile provisionFile outputPath =
     (let password = field ''password'' b;
          bundleId = field ''bundleId'' b;
          zsignCmd = ZSIGN_PATH cfg @ '' -k '' @ dq @ path certFile @ dq
      in case (if truthy password
               then map_option (\<lambda>t. zsignCmd @ '' -p '' @ dq @ t @ dq) (template_text password)
               else Some zsignCmd) of
           None \<Rightarrow> None
         | Some zsignCmd \<Rightarrow>
             let zsignCmd = zsignCmd @ '' -m '' @ dq @ path provisionFile @ dq
             in case (if truthy bundleId
                      then map_option (\<lambda>t. zsignCmd @ '' -b '' @ dq @ t @ dq)
                             (template_text bundleId)
                      else Some zsignCmd) of
                  None \<Rightarrow> None
                | Some zsignCmd \<Rightarrow>
                    Some (zsignCmd @ '' -o '' @ dq @ outputPath @ dq @ '' '' @ dq
                            @ path ipaFile @ dq))"

text \<open>Lines 115--120: \<open>cleanupFiles.forEach\<close>; a throwing \<open>unlinkSync\<close> ends the loop.\<close>

fun unlink_existing :: "string list \<Rightarrow> filesystem \<Rightarrow> fs_error option \<times> filesystem" where
  "unlink_existing [] d = (None, d)"
| "unlink_existing (f # fs) d =
     (if existsSync f d
      then (case unlinkSync f d of
              Inl err \<Rightarrow> (Some err, d)
            | Inr d' \<Rightarrow> unlink_existing fs d')
      else unlink_existing fs d)"

definition output_size :: "string \<Rightarrow> filesystem \<Rightarrow> fs_error + nat" where
  "output_size outputPath d =
     (if existsSync outputPath d
      then (case statSync outputPath d of Inl err \<Rightarrow> Inl err | Inr n \<Rightarrow> Inr (size_bytes n))
      else Inr 0)"

text \<open>
  Lines 113--151: the callback of \<open>exec\<close>. It runs outside the handler's \<open>try\<close>, so an
  exception thrown in it is caught by nobody and no response is written.
\<close>

definition sign_callback ::
  "config \<Rightarrow> upfile \<Rightarrow> upfile \<Rightarrow> upfile \<Rightarrow> string \<Rightarrow> string \<Rightarrow> exec_result
     \<Rightarrow> filesystem \<Rightarrow> outcome \<times> filesystem" where
  "sign_callback cfg ipaFile certFile provisionFile outputFileName outputPath r d1 =
     (let cleanupFiles = [path ipaFile, path certFile, path provisionFile]
      in case unlink_existing cleanupFiles d1 of
           (Some err, d) \<Rightarrow> (Uncaught (fs_error_message err), d)
         | (None, d) \<Rightarrow>
             let sessionDir = path_dirname (path ipaFile);
                 d2 = (if existsSync sessionDir d then rmSync_recursive_force sessionDir d else d)
             in case error r of
                  Some message \<Rightarrow>
                    (Sent (res_json 500 (JObject
                       [(''success'', JBool False),
                        (''error'', JString
                           ''Failed to sign IPA. Please check your certificate and provisioning profile.''),
                        (''details'', JString (if stderr r \<noteq> [] then stderr r else message))])),
                     d2)
                | None \<Rightarrow>
                    let downloadUrl = DOMAIN cfg @ ''/output/'' @ outputFileName;
                        installUrl = ''itms-services://?action=download-manifest&url=''
                          @ encodeURIComponent (DOMAIN cfg @ ''/api/manifest/'' @ outputFileName)
                    in case output_size outputPath d2 of
                         Inl err \<Rightarrow> (Uncaught (fs_error_message err), d2)
                       | Inr sz \<Rightarrow>
                           (Sent (res_json 200 (JObject
                              [(''success'', JBool True),
                               (''message'', JString ''IPA signed successfully''),
                               (''data'', JObject
                                  [(''fileName'', JString outputFileName),
                                   (''downloadUrl'', JString downloadUrl),
                                   (''installUrl'', JString installUrl),
                                   (''size'', JNumber sz)])])),
                            d2))"

definition missing_files :: "request \<Rightarrow> bool" where
  "missing_files req =
     (case files req of
        None \<Rightarrow> True
      | Some fl \<Rightarrow> ipa fl = None \<or> certificate fl = None \<or> provision fl = None)"

definition array_first :: "'a list option \<Rightarrow> 'a option" where
  "array_first xs = (case xs of Some (x # rest) \<Rightarrow> Some x | _ \<Rightarrow> None)"

definition internal_error :: "string \<Rightarrow> filesystem \<Rightarrow> run" where
  "internal_error message d =
     \<lparr>outcome = Sent (res_json 500 (JObject
          [(''success'', JBool False),
           (''error'', JString ''Internal server error''),
           (''details'', JString message)])),
      disk = d, executed = []\<rparr>"

text \<open>
  The handler. \<open>req.files[kind][0]\<close> is \<open>undefined\<close> on an empty array, and reading a
  property of it throws a \<open>TypeError\<close>; so does printing a field that is an object. The
  handler's \<open>catch\<close> turns both into a 500, before any command is run. The identifier
  drawn on line 80 is read by nothing and is left out.
\<close>

definition sign_handler :: "config \<Rightarrow> env \<Rightarrow> tool \<Rightarrow> request \<Rightarrow> filesystem \<Rightarrow> run" where
  "sign_handler cfg e zsign req d0 =
     (if missing_files req then
        \<lparr>outcome = Sent (res_json 400 (JObject
            [(''success'', JBool False),
             (''error'', JString
                ''Missing required files. Please upload IPA, P12 certificate, and provisioning profile.'')])),
         disk = d0, executed = []\<rparr>
      else
        case files req of
          None \<Rightarrow> internal_error ''Cannot read properties of undefined'' d0
        | Some fl \<Rightarrow>
           (case array_first (ipa fl) of
              None \<Rightarrow>
                internal_error ''Cannot read properties of undefined (reading 'originalname')'' d0
            | Some ipaFile \<Rightarrow>
               (case (array_first (certificate fl), array_first (provision fl)) of
                  (Some certFile, Some provisionFile) \<Rightarrow>
                    let outputFileName = path_parse_name (originalname ipaFile) @ ''_signed_''
                          @ Number_toString (now e) @ ''.ipa'';
                        outputPath = path_join (OUTPUT_DIR cfg) outputFileName
                    in (case zsign_command cfg (body req) ipaFile certFile provisionFile
                               outputPath of
                          None \<Rightarrow> internal_error ''Cannot convert object to primitive value'' d0
                        | Some zsignCmd \<Rightarrow>
                            let (r, d1) = zsign zsignCmd d0;
                                (out, d2) = sign_callback cfg ipaFile certFile provisionFile
                                              outputFileName outputPath r d1
                            in \<lparr>outcome = out, disk = d2, executed = [zsignCmd]\<rparr>)
                | _ \<Rightarrow> internal_error ''Cannot read properties of undefined (reading 'path')'' d0)))"

text \<open>Lines 260--267: the error middleware answers a failed upload.\<close>

definition error_middleware :: "upload_error \<Rightarrow> response" where
  "error_middleware err =
     res_json 500 (JObject [(''success'', JBool False),
                            (''error'', JString (upload_error_message err))])"

definition empty_intake :: "filesystem \<Rightarrow> intake" where
  "empty_intake d =
     \<lparr>in_body = [],
      in_files = \<lparr>ipa = None, certificate = None, provision = None\<rparr>,
      in_disk = d, in_uuids = 0\<rparr>"

definition post_sign :: "config \<Rightarrow> env \<Rightarrow> tool \<Rightarrow> part list \<Rightarrow> filesystem \<Rightarrow> run" where
  "post_sign cfg e zsign parts d0 =
     (case multer_fields cfg e parts (empty_intake d0) of
        Inl (Aborted err d) \<Rightarrow>
          \<lparr>outcome = Sent (error_middleware err), disk = d, executed = []\<rparr>
      | Inl (Crashed message d) \<Rightarrow> \<lparr>outcome = Uncaught message, disk = d, executed = []\<rparr>
      | Inr st \<Rightarrow>
          sign_handler cfg e zsign \<lparr>body = in_body st, files = Some (in_files st)\<rparr> (in_disk st))"

section \<open>\<open>GET /api/manifest/:filename\<close> (lines 163--202)\<close>

definition join_lines :: "string list \<Rightarrow> string" where
  "join_lines ls = (case ls of [] \<Rightarrow> [] | l # rest \<Rightarrow> l @ concat (map (\<lambda>t. CHR 0x0A # t) rest))"

definition manifest_xml :: "string \<Rightarrow> string" where
  \<open>manifest_xml ipaUrl = join_lines
     [''<?xml version="1.0" encoding="UTF-8"?>'',
      ''<!DOCTYPE plist PUBLIC "-//Apple//DTD PLIST 1.0//EN" "http://www.apple.com/DTDs/PropertyList-1.0.dtd">'',
      ''<plist version="1.0">'',
      ''<dict>'',
      ''  <key>items</key>'',
      ''  <array>'',
      ''    <dict>'',
      ''      <key>assets</key>'',
      ''      <array>'',
      ''        <dict>'',
      ''          <key>kind</key>'',
      ''          <string>software-package</string>'',
      ''          <key>url</key>'',
      ''          <string>'' @ ipaUrl @ ''</string>'',
      ''        </dict>'',
      ''      </array>'',
      ''      <key>metadata</key>'',
      ''      <dict>'',
      ''        <key>bundle-identifier</key>'',
      ''        <string>com.example.app</string>'',
      ''        <key>bundle-version</key>'',
      ''        <string>1.0</string>'',
      ''        <key>kind</key>'',
      ''        <string>software</string>'',
      ''        <key>title</key>'',
      ''        <string>Signed App</string>'',
      ''      </dict>'',
      ''    </dict>'',
      ''  </array>'',
      ''</dict>'',
      ''</plist>'']\<close>

text \<open>The handler reads nothing from the disk; the disk is passed to say so.\<close>

definition get_manifest :: "config \<Rightarrow> string \<Rightarrow> filesystem \<Rightarrow> response \<times> filesystem" where
  "get_manifest cfg filename d =
     (let ipaUrl = DOMAIN cfg @ ''/output/'' @ filename;
          manifest = manifest_xml ipaUrl
      in (\<lparr>status = 200, contentType = ''application/xml'', payload = Text manifest\<rparr>, d))"

section \<open>\<open>GET /api/files\<close> and \<open>DELETE /api/files/:filename\<close> (lines 204--242)\<close>

record file_info =
  name :: string
  size_i :: nat
  created :: nat
  downloadUrl :: string

text \<open>\<open>Array.prototype.sort\<close> with a comparator: a stable sort.\<close>

fun insert_sorted :: "('a \<Rightarrow> 'a \<Rightarrow> int) \<Rightarrow> 'a \<Rightarrow> 'a list \<Rightarrow> 'a list" where
  "insert_sorted cmp x [] = [x]"
| "insert_sorted cmp x (y # ys) =
     (if cmp x y \<le> 0 then x # y # ys else y # insert_sorted cmp x ys)"

definition Array_sort :: "('a \<Rightarrow> 'a \<Rightarrow> int) \<Rightarrow> 'a list \<Rightarrow> 'a list" where
  "Array_sort cmp xs = foldr (insert_sorted cmp) xs []"

text \<open>Lines 209--218: the \<open>map\<close> over the names; a throwing \<open>statSync\<close> ends it.\<close>

fun file_infos :: "config \<Rightarrow> filesystem \<Rightarrow> string list \<Rightarrow> fs_error + file_info list" where
  "file_infos cfg d [] = Inr []"
| "file_infos cfg d (file # rest) =
     (let filePath = path_join (OUTPUT_DIR cfg) file
      in case statSync filePath d of
           Inl err \<Rightarrow> Inl err
         | Inr stats \<Rightarrow>
            (case file_infos cfg d rest of
               Inl err \<Rightarrow> Inl err
             | Inr infos \<Rightarrow>
                 Inr (\<lparr>name = file, size_i = size_bytes stats, created = birthtime stats,
                       downloadUrl = DOMAIN cfg @ ''/output/'' @ file\<rparr> # infos)))"

definition list_files :: "config \<Rightarrow> filesystem \<Rightarrow> fs_error + file_info list" where
  "list_files cfg d =
     (case readdirSync (OUTPUT_DIR cfg) d of
        Inl err \<Rightarrow> Inl err
      | Inr names \<Rightarrow>
         (case file_infos cfg d (filter (\<lambda>file. endsWith file ''.ipa'') names) of
            Inl err \<Rightarrow> Inl err
          | Inr infos \<Rightarrow>
              Inr (Array_sort (\<lambda>a b. int (created b) - int (created a)) infos)))"

definition info_json :: "file_info \<Rightarrow> json" where
  "info_json i = JObject [(''name'', JString (name i)), (''size'', JNumber (size_i i)),
                          (''created'', JDate (created i)),
                          (''downloadUrl'', JString (downloadUrl i))]"

definition get_files :: "config \<Rightarrow> filesystem \<Rightarrow> response" where
  "get_files cfg d =
     (case list_files cfg d of
        Inr fl \<Rightarrow> res_json 200 (JObject [(''success'', JBool True),
                                          (''files'', JArray (map info_json fl))])
      | Inl err \<Rightarrow> res_json 500 (JObject [(''success'', JBool False),
                                           (''error'', JString (fs_error_message err))]))"

definition delete_file :: "config \<Rightarrow> string \<Rightarrow> filesystem \<Rightarrow> response \<times> filesystem" where
  "delete_file cfg filename d =
     (let filePath = path_join (OUTPUT_DIR cfg) filename
      in if \<not> existsSync filePath d then
           (res_json 404 (JObject [(''success'', JBool False),
                                   (''error'', JString ''File not found'')]), d)
         else
           (case unlinkSync filePath d of
              Inr d' \<Rightarrow>
                (res_json 200 (JObject [(''success'', JBool True),
                                        (''message'', JString ''File deleted successfully'')]), d')
            | Inl err \<Rightarrow>
                (res_json 500 (JObject [(''success'', JBool False),
                                        (''error'', JString (fs_error_message err))]), d)))"

section \<open>Auxiliary notions for the statements\<close>

text \<open>
  A path holds a regular file or nothing. The uploaded files are in this state when the
  handler starts (\<open>uploaded_files_regular\<close>), and an external tool that leaves the uploads
  alone keeps them so.
\<close>

definition regular_or_absent :: "filesystem \<Rightarrow> string \<Rightarrow> bool" where
  "regular_or_absent d p = (case map_of d p of None \<Rightarrow> True | Some n \<Rightarrow> \<not> isDirectory n)"

text \<open>
  The text an optional flag contributes to the command line, by the value of its field:
  nothing for an absent field and for the empty string, the flag and the quoted text for
  a non-empty string and for an array, printed as its elements joined by commas; an
  object, or an array holding one, cannot be printed.
\<close>

definition flag_text :: "string \<Rightarrow> jsval option \<Rightarrow> string option" where
  "flag_text flag v =
     (case v of
        None \<Rightarrow> Some []
      | Some (JSString s) \<Rightarrow> Some (if s = [] then [] else '' '' @ flag @ '' '' @ dq @ s @ dq)
      | Some (JSArray xs) \<Rightarrow>
          (case js_toString (JSArray xs) of
             None \<Rightarrow> None
           | Some t \<Rightarrow> Some ('' '' @ flag @ '' '' @ dq @ t @ dq))
      | Some (JSObject kv) \<Rightarrow> None)"

definition stored_regular :: "intake \<Rightarrow> bool" where
  "stored_regular st =
     (\<forall>f \<in> set (stored (in_files st)). \<exists>n. map_of (in_disk st) (path f) = Some n \<and> \<not> isDirectory n)"

text \<open>
  The disk \<open>d2\<close> after lines 114--126 ran on the disk \<open>d1\<close>: the three uploads are gone, and
  so is everything inside the directory of the package when that directory existed.
\<close>

definition after_cleanup :: "upfile \<Rightarrow> upfile \<Rightarrow> upfile \<Rightarrow> filesystem \<Rightarrow> filesystem \<Rightarrow> bool" where
  "after_cleanup i c pf d1 d2 =
     (\<forall>q. map_of d2 q =
        (if q \<in> {path i, path c, path pf} then None
         else if path_dirname (path i) \<notin> {path i, path c, path pf}
                 \<and> existsSync (path_dirname (path i)) d1 \<and> inside (path_dirname (path i)) q
         then None
         else map_of d1 q))"

subsection \<open>Reading the manifest\<close>










subsection \<open>A sample deployment\<close>

definition example_config :: config where
  "example_config =
     \<lparr>DOMAIN = ''https://sign.example.com'', MAX_FILE_SIZE = 2147483648,
      UPLOAD_DIR = ''/srv/uploads'', OUTPUT_DIR = ''/srv/output'', ZSIGN_PATH = ''zsign''\<rparr>"

definition example_env :: env where
  "example_env = \<lparr>now = 123, uuidv4 = (\<lambda>k. ''session-'' @ Number_toString k)\<rparr>"

definition regular :: "nat \<Rightarrow> nat \<Rightarrow> node" where
  "regular len t = \<lparr>isDirectory = False, size_bytes = len, birthtime = t\<rparr>"

definition directory :: "nat \<Rightarrow> node" where
  "directory t = \<lparr>isDirectory = True, size_bytes = 0, birthtime = t\<rparr>"

definition example_ipa :: upfile where
  "example_ipa = \<lparr>originalname = ''MyApp.ipa'', path = ''/srv/uploads/s1/MyApp.ipa'', size_f = 10\<rparr>"

definition example_cert :: upfile where
  "example_cert = \<lparr>originalname = ''cert.p12'', path = ''/srv/uploads/s1/cert.p12'', size_f = 5\<rparr>"

definition example_profile :: upfile where
  "example_profile =
     \<lparr>originalname = ''profile.mobileprovision'',
      path = ''/srv/uploads/s1/profile.mobileprovision'', size_f = 3\<rparr>"

definition example_files :: form_files where
  "example_files =
     \<lparr>ipa = Some [example_ipa], certificate = Some [example_cert],
      provision = Some [example_profile]\<rparr>"

definition example_request :: request where
  "example_request =
     \<lparr>body = [(''sessionId'', JSString ''s1''), (''password'', JSString ''secret''),
              (''bundleId'', JSString [])],
      files = Some example_files\<rparr>"

definition example_request_two_passwords :: request where
  "example_request_two_passwords =
     \<lparr>body = appendField (appendField [(''sessionId'', JSString ''s1'')] ''password'' [])
                ''password'' [],
      files = Some example_files\<rparr>"

definition example_request_no_cert :: request where
  "example_request_no_cert =
     \<lparr>body = [],
      files = Some \<lparr>ipa = Some [example_ipa], certificate = None,
                    provision = Some [example_profile]\<rparr>\<rparr>"

definition example_disk :: filesystem where
  "example_disk =
     [(''/srv/uploads'', directory 1), (''/srv/output'', directory 1),
      (''/srv/uploads/s1'', directory 100),
      (''/srv/uploads/s1/MyApp.ipa'', regular 10 100),
      (''/srv/uploads/s1/cert.p12'', regular 5 100),
      (''/srv/uploads/s1/profile.mobileprovision'', regular 3 100)]"

definition tool_writes :: "string \<Rightarrow> nat \<Rightarrow> tool" where
  "tool_writes out len cmd d =
     (\<lparr>error = None, stdout = ''>>> Signed OK'', stderr = []\<rparr>, d @ [(out, regular len 123)])"

definition tool_writes_nothing :: tool where
  "tool_writes_nothing cmd d = (\<lparr>error = None, stdout = [], stderr = []\<rparr>, d)"

definition tool_fails :: "string \<Rightarrow> tool" where
  "tool_fails diagnostic cmd d =
     (\<lparr>error = Some ''Command failed'', stdout = [], stderr = diagnostic\<rparr>, d)"

definition example_output_disk :: filesystem where
  "example_output_disk =
     [(''/srv/uploads'', directory 1), (''/srv/output'', directory 1),
      (''/srv/output/old_signed_7.ipa'', regular 100 7),
      (''/srv/output/notes.txt'', regular 5 8),
      (''/srv/output/new_signed_9.ipa'', regular 200 9)]"

definition example_parts :: "part list" where
  "example_parts =
     [FilePart ''ipa'' ''MyApp.ipa'' 10, FilePart ''certificate'' ''cert.p12'' 5,
      FilePart ''provision'' ''profile.mobileprovision'' 3, Field ''password'' ''secret'']"

definition example_empty_disk :: filesystem where
  "example_empty_disk = [(''/srv/uploads'', directory 1), (''/srv/output'', directory 1)]"

text \<open>A request whose \<open>sessionId\<close> field leads from the upload directory into the output directory.\<close>

definition example_traversal_parts :: "part list" where
  "example_traversal_parts =
     [Field ''sessionId'' ''../output'',
      FilePart ''ipa'' ''MyApp.ipa'' 10, FilePart ''certificate'' ''cert.p12'' 5,
      FilePart ''provision'' ''profile.mobileprovision'' 3]"

definition example_traversal_stored :: intake where
  "example_traversal_stored =
     \<lparr>in_body = [(''sessionId'', JSString ''../output'')],
      in_files =
        \<lparr>ipa = Some [\<lparr>originalname = ''MyApp.ipa'',
                         path = ''/srv/output/MyApp.ipa'', size_f = 10\<rparr>],
         certificate = Some [\<lparr>originalname = ''cert.p12'',
                         path = ''/srv/output/cert.p12'', size_f = 5\<rparr>],
         provision = Some [\<lparr>originalname = ''profile.mobileprovision'',
                         path = ''/srv/output/profile.mobileprovision'', size_f = 3\<rparr>]\<rparr>,
      in_disk =
        [(''/srv/uploads'', directory 1), (''/srv/output'', directory 1),
         (''/srv/output/MyApp.ipa'', regular 10 123),
         (''/srv/output/cert.p12'', regular 5 123),
         (''/srv/output/profile.mobileprovision'', regular 3 123)],
      in_uuids = 0\<rparr>"

definition example_stored :: intake where
  "example_stored =
     \<lparr>in_body = [(''password'', JSString ''secret'')],
      in_files =
        \<lparr>ipa = Some [\<lparr>originalname = ''MyApp.ipa'',
                         path = ''/srv/uploads/session-0/MyApp.ipa'', size_f = 10\<rparr>],
         certificate = Some [\<lparr>originalname = ''cert.p12'',
                         path = ''/srv/uploads/session-1/cert.p12'', size_f = 5\<rparr>],
         provision = Some [\<lparr>originalname = ''profile.mobileprovision'',
                         path = ''/srv/uploads/session-2/profile.mobileprovision'', size_f = 3\<rparr>]\<rparr>,
      in_disk =
        [(''/srv/uploads'', directory 1), (''/srv/output'', directory 1),
         (''/srv/uploads/session-0'', directory 123),
         (''/srv/uploads/session-0/MyApp.ipa'', regular 10 123),
         (''/srv/uploads/session-1'', directory 123),
         (''/srv/uploads/session-1/cert.p12'', regular 5 123),
         (''/srv/uploads/session-2'', directory 123),
         (''/srv/uploads/session-2/profile.mobileprovision'', regular 3 123)],
      in_uuids = 3\<rparr>"

definition example_command :: string where
  \<open>example_command = ''zsign -k "/srv/uploads/s1/cert.p12" -p "secret" -m "/srv/uploads/s1/profile.mobileprovision" -o "/srv/output/MyApp_signed_123.ipa" "/srv/uploads/s1/MyApp.ipa"''\<close>

section \<open>Lemmas on the filesystem, paths and encoding\<close>

lemma map_of_remove_entry: "map_of (remove_entry p d) q = (if q = p then None else map_of d q)"
  unfolding remove_entry_def by (induction d) auto

lemma map_of_filter_fst:
  "map_of (filter (\<lambda>e. P (fst e)) d) q = (if P q then map_of d q else None)"
  by (induction d) auto

lemma map_of_rmSync:
  "map_of (rmSync_recursive_force p d) q = (if inside p q then None else map_of d q)"
  unfolding rmSync_recursive_force_def using map_of_filter_fst [of "\<lambda>x. \<not> inside p x" d q] by simp

lemma unlink_existing_regular:
  "\<forall>p \<in> set ps. regular_or_absent d p \<Longrightarrow>
   \<exists>d'. unlink_existing ps d = (None, d') \<and>
        (\<forall>q. map_of d' q = (if q \<in> set ps then None else map_of d q))"
proof (induction ps arbitrary: d)
  case Nil
  then show ?case by simp
next
  case (Cons p ps)
  show ?case
  proof (cases "map_of d p")
    case None
    have "\<forall>p \<in> set ps. regular_or_absent d p" using Cons.prems by simp
    from Cons.IH [OF this] obtain d' where
      d': "unlink_existing ps d = (None, d')"
          "\<forall>q. map_of d' q = (if q \<in> set ps then None else map_of d q)" by blast
    show ?thesis using None d' by (auto simp: existsSync_def)
  next
    case (Some n)
    then have reg: "\<not> isDirectory n" using Cons.prems by (simp add: regular_or_absent_def)
    have "\<forall>q \<in> set ps. regular_or_absent (remove_entry p d) q"
      using Cons.prems by (simp add: regular_or_absent_def map_of_remove_entry)
    from Cons.IH [OF this] obtain d' where
      d': "unlink_existing ps (remove_entry p d) = (None, d')"
          "\<forall>q. map_of d' q = (if q \<in> set ps then None else map_of (remove_entry p d) q)"
      by blast
    show ?thesis using Some reg d'
      by (auto simp: existsSync_def unlinkSync_def map_of_remove_entry)
  qed
qed

lemma cleanup_steps:
  assumes "\<forall>p \<in> {path i, path c, path pf}. regular_or_absent d1 p"
  shows "\<exists>d. unlink_existing [path i, path c, path pf] d1 = (None, d) \<and>
     after_cleanup i c pf d1 (if existsSync (path_dirname (path i)) d
                then rmSync_recursive_force (path_dirname (path i)) d else d)"
proof -
  have "\<forall>p \<in> set [path i, path c, path pf]. regular_or_absent d1 p" using assms(1) by simp
  from unlink_existing_regular [OF this] obtain d where
    d: "unlink_existing [path i, path c, path pf] d1 = (None, d)"
       "\<forall>q. map_of d q = (if q \<in> set [path i, path c, path pf] then None else map_of d1 q)"
    by blast
  have "after_cleanup i c pf d1 (if existsSync (path_dirname (path i)) d
                then rmSync_recursive_force (path_dirname (path i)) d else d)"
    unfolding after_cleanup_def using d(2)
    by (simp add: map_of_rmSync existsSync_def)
  with d(1) show ?thesis by blast
qed

lemma output_size_eq:
  "output_size p d = Inr (case map_of d p of None \<Rightarrow> 0 | Some n \<Rightarrow> size_bytes n)"
  by (simp add: output_size_def existsSync_def statSync_def split: option.splits)

lemma sign_callback_failure:
  assumes "\<forall>p \<in> {path i, path c, path pf}. regular_or_absent d1 p" and "error r = Some message"
  shows "\<exists>d2. after_cleanup i c pf d1 d2 \<and> sign_callback cfg i c pf fn out r d1 =
     (Sent (res_json 500 (JObject
        [(''success'', JBool False),
         (''error'', JString
            ''Failed to sign IPA. Please check your certificate and provisioning profile.''),
         (''details'', JString (if stderr r \<noteq> [] then stderr r else message))])), d2)"
proof -
  from cleanup_steps [OF assms(1)] obtain d where
    d: "unlink_existing [path i, path c, path pf] d1 = (None, d)"
       "after_cleanup i c pf d1 (if existsSync (path_dirname (path i)) d
                then rmSync_recursive_force (path_dirname (path i)) d else d)"
    by blast
  show ?thesis
    using d assms(2) by (simp add: sign_callback_def Let_def)
qed

lemma sign_callback_success:
  assumes "\<forall>p \<in> {path i, path c, path pf}. regular_or_absent d1 p" and "error r = None"
  shows "\<exists>d2. after_cleanup i c pf d1 d2 \<and> sign_callback cfg i c pf fn out r d1 =
     (Sent (res_json 200 (JObject
        [(''success'', JBool True),
         (''message'', JString ''IPA signed successfully''),
         (''data'', JObject
            [(''fileName'', JString fn),
             (''downloadUrl'', JString (DOMAIN cfg @ ''/output/'' @ fn)),
             (''installUrl'', JString (''itms-services://?action=download-manifest&url=''
                 @ encodeURIComponent (DOMAIN cfg @ ''/api/manifest/'' @ fn))),
             (''size'', JNumber (case map_of d2 out of None \<Rightarrow> 0 | Some n \<Rightarrow> size_bytes n))])])),
      d2)"
proof -
  from cleanup_steps [OF assms(1)] obtain d where
    d: "unlink_existing [path i, path c, path pf] d1 = (None, d)"
       "after_cleanup i c pf d1 (if existsSync (path_dirname (path i)) d
                then rmSync_recursive_force (path_dirname (path i)) d else d)"
    by blast
  show ?thesis
    using d assms(2) by (simp add: sign_callback_def Let_def output_size_eq)
qed

lemma sign_handler_present:
  assumes "files req = Some fl" "ipa fl = Some (i # r1)" "certificate fl = Some (c # r2)"
    "provision fl = Some (pf # r3)"
  shows "sign_handler cfg e zsign req d0 =
     (let fn = path_parse_name (originalname i) @ ''_signed_'' @ Number_toString (now e) @ ''.ipa'';
          out = path_join (OUTPUT_DIR cfg) fn
      in case zsign_command cfg (body req) i c pf out of
           None \<Rightarrow> internal_error ''Cannot convert object to primitive value'' d0
         | Some cmd \<Rightarrow>
             let res = sign_callback cfg i c pf fn out (fst (zsign cmd d0)) (snd (zsign cmd d0))
             in \<lparr>outcome = fst res, disk = snd res, executed = [cmd]\<rparr>)"
  using assms
  by (simp add: sign_handler_def missing_files_def array_first_def Let_def
      split: prod.splits option.splits)

lemma path_basename_plain: "CHR ''/'' \<notin> set s \<Longrightarrow> path_basename s = s"
proof -
  assume a: "CHR ''/'' \<notin> set s"
  have dw: "dropWhile (\<lambda>c. c = CHR ''/'') (rev s) = rev s"
    using a by (cases "rev s") (auto simp: dropWhile_eq_self_iff)
  have tw: "takeWhile (\<lambda>c. c \<noteq> CHR ''/'') (rev s) = rev s"
    using a by (auto simp: takeWhile_eq_all_conv)
  show ?thesis unfolding path_basename_def dw tw by simp
qed

lemma path_extname_ipa:
  assumes "N \<noteq> []" and "CHR ''/'' \<notin> set N"
  shows "path_extname (N @ ''.ipa'') = ''.ipa''"
proof -
  have b: "path_basename (N @ ''.ipa'') = N @ ''.ipa''"
    using assms(2) by (intro path_basename_plain) simp
  have ne: "N @ ''.ipa'' \<noteq> ''..''" by (cases N) auto
  show ?thesis
    using assms(1) ne by (simp add: path_extname_def b Let_def)
qed

lemma path_parse_name_ipa:
  assumes "N \<noteq> []" and "CHR ''/'' \<notin> set N"
  shows "path_parse_name (N @ ''.ipa'') = N"
proof -
  have b: "path_basename (N @ ''.ipa'') = N @ ''.ipa''"
    using assms(2) by (intro path_basename_plain) simp
  show ?thesis
    by (simp add: path_parse_name_def b path_extname_ipa [OF assms] Let_def)
qed

lemma fileFilter_dot_ipa: "\<not> fileFilter ''.ipa''"
  by (simp add: fileFilter_def path_extname_def path_basename_def toLowerCase_def
      allowedExtensions_def Let_def)

lemma encodeURIComponent_append:
  "encodeURIComponent (a @ b) = encodeURIComponent a @ encodeURIComponent b"
  by (simp add: encodeURIComponent_def)

lemma encode_manifest_path: "encodeURIComponent ''/api/manifest/'' = ''%2Fapi%2Fmanifest%2F''"
  by (simp add: encodeURIComponent_def uri_unreserved_def percent_encode_def hex_digit_def Let_def)

lemma flag_segment_p:
  "(if truthy v then map_option (\<lambda>t. c @ '' -p '' @ dq @ t @ dq) (template_text v)
    else Some c) = map_option (\<lambda>t. c @ t) (flag_text ''-p'' v)"
proof (cases v)
  case None
  then show ?thesis by (simp add: truthy_def flag_text_def)
next
  case (Some x)
  then show ?thesis
    by (cases x) (auto simp: truthy_def flag_text_def template_text_def split: option.splits)
qed

lemma flag_segment_b:
  "(if truthy v then map_option (\<lambda>t. c @ '' -b '' @ dq @ t @ dq) (template_text v)
    else Some c) = map_option (\<lambda>t. c @ t) (flag_text ''-b'' v)"
proof (cases v)
  case None
  then show ?thesis by (simp add: truthy_def flag_text_def)
next
  case (Some x)
  then show ?thesis
    by (cases x) (auto simp: truthy_def flag_text_def template_text_def split: option.splits)
qed

lemma zsign_command_flags:
  "zsign_command cfg b ipaFile certFile provisionFile outputPath =
     (case (flag_text ''-p'' (field ''password'' b), flag_text ''-b'' (field ''bundleId'' b)) of
        (Some p, Some bd) \<Rightarrow>
          Some (ZSIGN_PATH cfg @ '' -k '' @ dq @ path certFile @ dq @ p
                @ '' -m '' @ dq @ path provisionFile @ dq @ bd
                @ '' -o '' @ dq @ outputPath @ dq @ '' '' @ dq @ path ipaFile @ dq)
      | other \<Rightarrow> None)"
  unfolding zsign_command_def Let_def flag_segment_p flag_segment_b
  by (cases "flag_text ''-p'' (field ''password'' b)";
      cases "flag_text ''-b'' (field ''bundleId'' b)") simp_all

lemma sign_handler_command:
  assumes "files req = Some fl" and "ipa fl = Some (ipaFile # r1)"
    and "certificate fl = Some (certFile # r2)" and "provision fl = Some (provisionFile # r3)"
    and "executed (sign_handler cfg e zsign req d0) = [cmd]"
    and "zsign cmd d0 = (r, d1)"
    and "fileName = path_parse_name (originalname ipaFile) @ ''_signed_''
                      @ Number_toString (now e) @ ''.ipa''"
  shows "sign_handler cfg e zsign req d0 =
     \<lparr>outcome = fst (sign_callback cfg ipaFile certFile provisionFile fileName
                       (path_join (OUTPUT_DIR cfg) fileName) r d1),
      disk = snd (sign_callback cfg ipaFile certFile provisionFile fileName
                       (path_join (OUTPUT_DIR cfg) fileName) r d1),
      executed = [cmd]\<rparr>"
proof -
  note h = sign_handler_present [OF assms(1-4), of cfg e zsign d0]
  have cmd: "zsign_command cfg (body req) ipaFile certFile provisionFile
          (path_join (OUTPUT_DIR cfg) fileName) = Some cmd"
    using assms(5) unfolding h assms(7)
    by (simp add: Let_def internal_error_def split: option.splits)
  show ?thesis
    unfolding h Let_def assms(7) [symmetric] cmd using assms(6) by simp
qed

lemma readdirSync_exists:
  assumes "readdirSync dir d = Inr names" and "n \<in> set names"
  shows "existsSync (path_join dir n) d"
proof -
  from assms have "n \<in> set (map path_basename (filter (entry_name dir) (remdups (map fst d))))"
    by (auto simp: readdirSync_def split: option.splits if_splits)
  then obtain p where p: "p \<in> set (map fst d)" "entry_name dir p" "n = path_basename p"
    by (fastforce simp: image_iff)
  then have "path_join dir n = p"
    by (simp add: entry_name_def Let_def)
  moreover have "map_of d p \<noteq> None"
    using p(1) by (simp add: map_of_eq_None_iff)
  ultimately show ?thesis by (simp add: existsSync_def)
qed

lemma file_infos_total:
  assumes "\<forall>n \<in> set ns. existsSync (path_join (OUTPUT_DIR cfg) n) d"
  shows "\<exists>infos. file_infos cfg d ns = Inr infos"
  using assms
  by (induction ns) (auto simp: existsSync_def statSync_def Let_def split: option.splits)

lemma file_infos_names: "file_infos cfg d ns = Inr infos \<Longrightarrow> map name infos = ns"
  by (induction ns arbitrary: infos) (auto simp: Let_def split: sum.splits)

lemma file_infos_fields:
  "file_infos cfg d ns = Inr infos \<Longrightarrow> i \<in> set infos \<Longrightarrow>
   \<exists>st. statSync (path_join (OUTPUT_DIR cfg) (name i)) d = Inr st \<and> size_i i = size_bytes st
      \<and> created i = birthtime st \<and> downloadUrl i = DOMAIN cfg @ ''/output/'' @ name i"
  by (induction ns arbitrary: infos) (auto simp: Let_def split: sum.splits)

lemma mset_insert_sorted: "mset (insert_sorted cmp x xs) = add_mset x (mset xs)"
  by (induction xs) auto

lemma mset_Array_sort: "mset (Array_sort cmp xs) = mset xs"
  unfolding Array_sort_def by (induction xs) (auto simp: mset_insert_sorted)

lemma set_insert_sorted: "set (insert_sorted cmp x xs) = insert x (set xs)"
  by (induction xs) auto

lemma sorted_insert_created:
  "sorted_wrt (\<lambda>a b. created b \<le> created a) xs \<Longrightarrow>
   sorted_wrt (\<lambda>a b. created b \<le> created a)
     (insert_sorted (\<lambda>a b. int (created b) - int (created a)) x xs)"
  by (induction xs) (auto simp: set_insert_sorted)

lemma sorted_Array_sort_created:
  "sorted_wrt (\<lambda>a b. created b \<le> created a)
     (Array_sort (\<lambda>a b. int (created b) - int (created a)) xs)"
  unfolding Array_sort_def by (induction xs) (auto intro: sorted_insert_created)

lemma list_files_names:
  assumes "list_files cfg d = Inr fl"
  shows "\<exists>names. readdirSync (OUTPUT_DIR cfg) d = Inr names \<and>
           mset (map name fl) = mset (filter (\<lambda>file. endsWith file ''.ipa'') names)"
proof -
  from assms obtain names infos where
    n: "readdirSync (OUTPUT_DIR cfg) d = Inr names"
    and i: "file_infos cfg d (filter (\<lambda>file. endsWith file ''.ipa'') names) = Inr infos"
    and f: "fl = Array_sort (\<lambda>a b. int (created b) - int (created a)) infos"
    by (auto simp: list_files_def split: sum.splits)
  have "mset (map name fl) = image_mset name (mset infos)"
    unfolding f by (simp add: mset_Array_sort)
  also have "\<dots> = mset (map name infos)" by simp
  finally show ?thesis using n file_infos_names [OF i] by simp
qed



lemma sign_cleanup_removes_uploads:
  assumes "files req = Some fl" and "ipa fl = Some (ipaFile # r1)"
    and "certificate fl = Some (certFile # r2)" and "provision fl = Some (provisionFile # r3)"
    and "executed (sign_handler cfg e zsign req d0) = [cmd]"
    and "zsign cmd d0 = (r, d1)"
    and "\<forall>p \<in> {path ipaFile, path certFile, path provisionFile}. regular_or_absent d1 p"
  shows "\<not> existsSync (path ipaFile) (disk (sign_handler cfg e zsign req d0))
       \<and> \<not> existsSync (path certFile) (disk (sign_handler cfg e zsign req d0))
       \<and> \<not> existsSync (path provisionFile) (disk (sign_handler cfg e zsign req d0))
       \<and> \<not> existsSync (path_dirname (path ipaFile)) (disk (sign_handler cfg e zsign req d0))"
proof -
  define fileName where "fileName = path_parse_name (originalname ipaFile) @ ''_signed_''
                      @ Number_toString (now e) @ ''.ipa''"
  note run = sign_handler_command [OF assms(1-6) fileName_def]
  have "\<exists>d2. after_cleanup ipaFile certFile provisionFile d1 d2 \<and>
      snd (sign_callback cfg ipaFile certFile provisionFile fileName
             (path_join (OUTPUT_DIR cfg) fileName) r d1) = d2"
  proof (cases "error r")
    case None
    from sign_callback_success [OF assms(7) None, of cfg fileName
        "path_join (OUTPUT_DIR cfg) fileName"]
    show ?thesis by auto
  next
    case (Some message)
    from sign_callback_failure [OF assms(7) Some, of cfg fileName
        "path_join (OUTPUT_DIR cfg) fileName"]
    show ?thesis by auto
  qed
  then have "after_cleanup ipaFile certFile provisionFile d1
      (disk (sign_handler cfg e zsign req d0))"
    unfolding run by auto
  then show ?thesis
    by (auto simp: after_cleanup_def existsSync_def inside_def)
qed

lemma stored_add_file:
  "files_of fld fl = Some None \<Longrightarrow> set (stored (add_file fld f fl)) = insert f (set (stored fl))"
  by (auto simp: files_of_def add_file_def stored_def split: if_splits)

lemma handle_file_accepted:
  assumes "handle_file cfg e fld original len st = Inr st'"
    and "\<forall>f \<in> set (stored (in_files st)). fileFilter (originalname f)"
  shows "\<forall>f \<in> set (stored (in_files st')). fileFilter (originalname f)"
proof (cases "original = []")
  case True
  then show ?thesis using assms by (simp add: handle_file_def)
next
  case False
  then have fo: "files_of fld (in_files st) = Some None" and ok: "fileFilter original"
    using assms(1)
    by (auto simp: handle_file_def split: option.splits if_splits)
  from assms(1) False fo ok obtain dir st1 where d: "destination cfg e st = Inr (dir, st1)"
    by (auto simp: handle_file_def split: sum.splits)
  then have st1: "in_files st1 = in_files st"
    by (auto simp: destination_def Let_def split: option.splits jsval.splits)
  from assms(1) False fo ok d obtain dk where
    "st' = st1\<lparr>in_disk := dk,
              in_files := add_file fld
                \<lparr>originalname = original, path = path_join dir (filename_cb original),
                   size_f = len\<rparr> (in_files st1)\<rparr>"
    by (auto simp: handle_file_def Let_def split: sum.splits if_splits)
  then show ?thesis
    using assms(2) ok fo by (simp add: st1 stored_add_file)
qed

lemma multer_fields_accepted:
  assumes "multer_fields cfg e parts st = Inr st'"
    and "\<forall>f \<in> set (stored (in_files st)). fileFilter (originalname f)"
  shows "\<forall>f \<in> set (stored (in_files st')). fileFilter (originalname f)"
  using assms
proof (induction parts arbitrary: st)
  case Nil
  then show ?case by simp
next
  case (Cons p ps)
  show ?case
  proof (cases p)
    case (Field k v)
    with Cons.prems have "multer_fields cfg e ps (st\<lparr>in_body := appendField (in_body st) k v\<rparr>) = Inr st'"
      by simp
    from Cons.IH [OF this] Cons.prems(2) show ?thesis by simp
  next
    case (FilePart fld original len)
    with Cons.prems(1) obtain st1 where
      h: "handle_file cfg e fld original len st = Inr st1"
      and r: "multer_fields cfg e ps st1 = Inr st'"
      by (auto split: sum.splits)
    from Cons.IH [OF r handle_file_accepted [OF h Cons.prems(2)]] show ?thesis .
  qed
qed

lemma uploaded_files_accepted:
  assumes "multer_fields cfg e parts (empty_intake d0) = Inr st"
    and "f \<in> set (stored (in_files st))"
  shows "fileFilter (originalname f)"
  using multer_fields_accepted [OF assms(1)] assms(2)
  by (simp add: empty_intake_def stored_def)

lemma map_of_append_existing: "map_of d p = Some n \<Longrightarrow> map_of (d @ d') p = Some n"
  by (simp add: map_add_Some_iff)

lemma destination_files:
  "destination cfg e st = Inr (dir, st1) \<Longrightarrow> in_files st1 = in_files st"
  by (auto simp: destination_def Let_def split: option.splits jsval.splits)

lemma destination_keeps:
  assumes "destination cfg e st = Inr (dir, st1)" and "map_of (in_disk st) p = Some n"
  shows "map_of (in_disk st1) p = Some n"
  using assms
  by (auto simp: destination_def Let_def mkdirSync_recursive_def map_of_append_existing
      split: if_splits option.splits jsval.splits)

lemma write_file_effect:
  assumes "write_file t p len d = Inr d'"
  shows "\<exists>n. map_of d' p = Some n \<and> \<not> isDirectory n"
    and "q \<noteq> p \<Longrightarrow> map_of d q = Some m \<Longrightarrow> map_of d' q = Some m"
proof -
  have upd: "map_of (map (\<lambda>e. if fst e = p then (p, v) else e) d) q =
      (if q = p then (if map_of d p = None then None else Some v) else map_of d q)" for v q
    by (induction d) auto
  show "\<exists>n. map_of d' p = Some n \<and> \<not> isDirectory n"
    using assms
    by (auto simp: write_file_def upd map_add_Some_iff split: option.splits if_splits)
  show "q \<noteq> p \<Longrightarrow> map_of d q = Some m \<Longrightarrow> map_of d' q = Some m"
    using assms
    by (auto simp: write_file_def upd map_of_append_existing split: option.splits if_splits)
qed

lemma handle_file_regular:
  assumes "handle_file cfg e fld original len st = Inr st'" and "stored_regular st"
  shows "stored_regular st'"
proof (cases "original = []")
  case True
  then show ?thesis using assms by (simp add: handle_file_def)
next
  case False
  then have fo: "files_of fld (in_files st) = Some None"
    using assms(1) by (auto simp: handle_file_def split: option.splits if_splits)
  have ok: "fileFilter original"
    using assms(1) False fo by (auto simp: handle_file_def split: if_splits)
  from assms(1) False fo ok obtain dir st1 where d: "destination cfg e st = Inr (dir, st1)"
    by (auto simp: handle_file_def split: sum.splits)
  let ?p = "path_join dir (filename_cb original)"
  let ?f = "\<lparr>originalname = original, path = ?p, size_f = len\<rparr>"
  from assms(1) False fo d obtain dk where
    w: "write_file (now e) ?p len (in_disk st1) = Inr dk"
    and st': "st' = st1\<lparr>in_disk := dk, in_files := add_file fld ?f (in_files st1)\<rparr>"
    by (auto simp: handle_file_def Let_def split: sum.splits if_splits)
  have "\<exists>n. map_of dk (path g) = Some n \<and> \<not> isDirectory n"
    if g: "g \<in> insert ?f (set (stored (in_files st)))" for g
  proof (cases "path g = ?p")
    case True
    then show ?thesis using write_file_effect(1) [OF w] by simp
  next
    case False
    with g have "g \<in> set (stored (in_files st))" by auto
    with assms(2) obtain n where n: "map_of (in_disk st) (path g) = Some n" "\<not> isDirectory n"
      by (auto simp: stored_regular_def)
    from write_file_effect(2) [OF w False destination_keeps [OF d n(1)]] n(2)
    show ?thesis by blast
  qed
  moreover have "set (stored (add_file fld ?f (in_files st1)))
      = insert ?f (set (stored (in_files st)))"
    using fo destination_files [OF d] by (simp add: stored_add_file)
  ultimately show ?thesis
    unfolding stored_regular_def st' by simp
qed

lemma multer_fields_regular:
  assumes "multer_fields cfg e parts st = Inr st'" and "stored_regular st"
  shows "stored_regular st'"
  using assms
proof (induction parts arbitrary: st)
  case Nil
  then show ?case by simp
next
  case (Cons p ps)
  show ?case
  proof (cases p)
    case (Field k v)
    with Cons.prems have r: "multer_fields cfg e ps (st\<lparr>in_body := appendField (in_body st) k v\<rparr>) = Inr st'"
      by simp
    have "stored_regular (st\<lparr>in_body := appendField (in_body st) k v\<rparr>)"
      using Cons.prems(2) by (simp add: stored_regular_def)
    from Cons.IH [OF r this] show ?thesis .
  next
    case (FilePart fld original len)
    with Cons.prems(1) obtain st1 where
      h: "handle_file cfg e fld original len st = Inr st1"
      and r: "multer_fields cfg e ps st1 = Inr st'"
      by (auto split: sum.splits)
    from Cons.IH [OF r handle_file_regular [OF h Cons.prems(2)]] show ?thesis .
  qed
qed

lemma uploaded_files_regular:
  assumes "multer_fields cfg e parts (empty_intake d0) = Inr st"
    and "f \<in> set (stored (in_files st))"
  shows "regular_or_absent (in_disk st) (path f)"
proof -
  have "stored_regular (empty_intake d0)"
    by (simp add: stored_regular_def empty_intake_def stored_def)
  from multer_fields_regular [OF assms(1) this] assms(2)
  show ?thesis by (auto simp: stored_regular_def regular_or_absent_def)
qed

lemmas example_defs = example_config_def example_env_def example_ipa_def example_cert_def
  example_profile_def example_request_def example_request_no_cert_def example_disk_def
  regular_def directory_def

lemma example_present:
  "files example_request = Some example_files"
  "ipa example_files = Some (example_ipa # [])"
  "certificate example_files = Some (example_cert # [])"
  "provision example_files = Some (example_profile # [])"
  by (simp_all add: example_request_def example_files_def)

lemma example_fileName:
  "path_parse_name (originalname example_ipa) @ ''_signed_'' @ Number_toString (now example_env)
     @ ''.ipa'' = ''MyApp_signed_123.ipa''"
proof -
  have n: "Number_toString 123 = ''123''" by code_simp
  have pn: "path_parse_name ''MyApp.ipa'' = ''MyApp''" by code_simp
  show ?thesis by (simp add: example_ipa_def example_env_def n pn)
qed

lemma example_outputPath:
  "path_join (OUTPUT_DIR example_config) ''MyApp_signed_123.ipa'' = ''/srv/output/MyApp_signed_123.ipa''"
proof -
  have "path_join ''/srv/output'' ''MyApp_signed_123.ipa'' = ''/srv/output/MyApp_signed_123.ipa''"
    by code_simp
  then show ?thesis by (simp add: example_config_def)
qed

lemma example_command_built:
  "zsign_command example_config (body example_request) example_ipa example_cert example_profile
     ''/srv/output/MyApp_signed_123.ipa'' = Some example_command"
  by (simp add: zsign_command_def example_defs example_command_def dq_def truthy_def
      template_text_def field_def)

lemma example_executed:
  "executed (sign_handler example_config example_env zsign example_request d) = [example_command]"
  unfolding sign_handler_present [OF example_present, of example_config example_env zsign d]
    Let_def example_fileName example_outputPath example_command_built
  by simp

lemma example_regular:
  "\<forall>p \<in> {path example_ipa, path example_cert, path example_profile}.
     regular_or_absent (example_disk @ extra) p"
  by (simp add: regular_or_absent_def example_defs)

lemma example_uuid:
  "uuidv4 example_env 0 = ''session-0''" "uuidv4 example_env (Suc 0) = ''session-1''"
  "uuidv4 example_env (Suc (Suc 0)) = ''session-2''"
proof -
  have "Number_toString 0 = ''0''" "Number_toString (Suc 0) = ''1''"
    "Number_toString (Suc (Suc 0)) = ''2''"
    by code_simp+
  then show "uuidv4 example_env 0 = ''session-0''" "uuidv4 example_env (Suc 0) = ''session-1''"
    "uuidv4 example_env (Suc (Suc 0)) = ''session-2''"
    by (simp_all add: example_env_def)
qed

lemma example_now: "now example_env = 123"
  by (simp add: example_env_def)

lemma example_session_paths:
  "path_join ''/srv/uploads'' ''session-0'' = ''/srv/uploads/session-0''"
  "path_join ''/srv/uploads'' ''session-1'' = ''/srv/uploads/session-1''"
  "path_join ''/srv/uploads'' ''session-2'' = ''/srv/uploads/session-2''"
  "path_join ''/srv/uploads/session-0'' ''MyApp.ipa'' = ''/srv/uploads/session-0/MyApp.ipa''"
  "path_join ''/srv/uploads/session-1'' ''cert.p12'' = ''/srv/uploads/session-1/cert.p12''"
  "path_join ''/srv/uploads/session-2'' ''profile.mobileprovision''
     = ''/srv/uploads/session-2/profile.mobileprovision''"
  "path_dirname ''/srv/uploads/session-0/MyApp.ipa'' = ''/srv/uploads/session-0''"
  by code_simp+

lemma example_accepted:
  "fileFilter ''MyApp.ipa''" "fileFilter ''cert.p12''" "fileFilter ''profile.mobileprovision''"
  by code_simp+

lemma example_password_field:
  "appendField [] ''password'' ''secret'' = [(''password'', JSString ''secret'')]"
  by code_simp

lemma example_intake:
  "multer_fields example_config example_env example_parts (empty_intake example_empty_disk)
     = Inr example_stored"
  by (simp add: example_parts_def empty_intake_def example_empty_disk_def handle_file_def
      files_of_def example_accepted destination_def truthy_def example_uuid
      example_config_def example_session_paths existsSync_def mkdirSync_recursive_def
      filename_cb_def write_file_def add_file_def example_password_field example_stored_def
      directory_def regular_def example_now Let_def field_def)


lemma example_post_sign:
  "post_sign example_config example_env zsign example_parts example_empty_disk =
     sign_handler example_config example_env zsign
       \<lparr>body = in_body example_stored, files = Some (in_files example_stored)\<rparr>
       (in_disk example_stored)"
  by (simp add: post_sign_def example_intake)

lemma example_traversal_paths:
  "path_join ''/srv/uploads'' ''../output'' = ''/srv/output''"
  "path_join ''/srv/output'' ''MyApp.ipa'' = ''/srv/output/MyApp.ipa''"
  "path_join ''/srv/output'' ''cert.p12'' = ''/srv/output/cert.p12''"
  "path_join ''/srv/output'' ''profile.mobileprovision'' = ''/srv/output/profile.mobileprovision''"
  "path_dirname ''/srv/output/MyApp.ipa'' = ''/srv/output''"
  by code_simp+

lemma example_traversal_field:
  "appendField [] ''sessionId'' ''../output'' = [(''sessionId'', JSString ''../output'')]"
  by code_simp

lemma example_traversal_intake:
  "multer_fields example_config example_env example_traversal_parts
     (empty_intake example_empty_disk) = Inr example_traversal_stored"
  by (simp add: example_traversal_parts_def empty_intake_def example_empty_disk_def
      handle_file_def files_of_def example_accepted destination_def truthy_def
      example_config_def example_traversal_paths existsSync_def mkdirSync_recursive_def
      filename_cb_def write_file_def add_file_def example_traversal_field
      example_traversal_stored_def directory_def regular_def example_now Let_def field_def)

section \<open>Properties of \<open>POST /api/sign\<close>\<close>

text \<open>
  Claim C1 says that \<open>-p\<close> and the password are part of the command line exactly when a
  non-empty password field was supplied. A request that carries the password field twice,
  empty both times, supplies no non-empty password; multer hands the handler the array of
  the two values, which is truthy and prints as a comma, and the command line carries
  \<open>-p ","\<close>.
\<close>

theorem sign_command_repeated_password_counterexample:
  \<open>body example_request_two_passwords =
     [(''sessionId'', JSString ''s1''), (''password'', JSArray [Some (JSString []), Some (JSString [])])]
   \<and> executed (sign_handler example_config example_env tool_writes_nothing
         example_request_two_passwords example_disk) =
     [''zsign -k "/srv/uploads/s1/cert.p12" -p "," -m "/srv/uploads/s1/profile.mobileprovision" -o "/srv/output/MyApp_signed_123.ipa" "/srv/uploads/s1/MyApp.ipa"'']\<close>
proof -
  have b: "appendField (appendField [(''sessionId'', JSString ''s1'')] ''password'' [])
      ''password'' [] =
     [(''sessionId'', JSString ''s1''), (''password'', JSArray [Some (JSString []), Some (JSString [])])]"
    by code_simp
  have f: "files example_request_two_passwords = Some example_files"
    by (simp add: example_request_two_passwords_def)
  show ?thesis
    unfolding sign_handler_present [OF f example_present(2-4), of example_config example_env
        tool_writes_nothing example_disk] Let_def example_fileName example_outputPath
    by (simp add: example_request_two_passwords_def b zsign_command_def field_def truthy_def
        template_text_def example_defs dq_def)
qed

text \<open>
  Claim C1, amended. With all three files present, the command line is the tool, \<open>-k\<close>
  and the certificate path, then the text of the password flag, then \<open>-m\<close> and the profile
  path, then the text of the bundle identifier flag, then \<open>-o\<close> and the output path, then
  the path of the input package, every argument between double quotes. A flag is present
  exactly when its field is a non-empty string, with that string, or an array (a field
  sent more than once), with its values joined by commas. When one of the two fields is
  an object (a field sent under a bracketed name) or an array holding one, no command is
  run.
\<close>

theorem sign_command_line:
  assumes "files req = Some fl" and "ipa fl = Some (ipaFile # r1)"
    and "certificate fl = Some (certFile # r2)" and "provision fl = Some (provisionFile # r3)"
  shows "executed (sign_handler cfg e zsign req d0) =
     (case (flag_text ''-p'' (field ''password'' (body req)),
            flag_text ''-b'' (field ''bundleId'' (body req))) of
        (Some p, Some b) \<Rightarrow>
          [ZSIGN_PATH cfg @ '' -k '' @ dq @ path certFile @ dq
           @ p
           @ '' -m '' @ dq @ path provisionFile @ dq
           @ b
           @ '' -o '' @ dq
           @ path_join (OUTPUT_DIR cfg)
               (path_parse_name (originalname ipaFile) @ ''_signed_''
                  @ Number_toString (now e) @ ''.ipa'')
           @ dq @ '' '' @ dq @ path ipaFile @ dq]
      | other \<Rightarrow> [])"
  unfolding sign_handler_present [OF assms] Let_def zsign_command_flags
  by (cases "flag_text ''-p'' (field ''password'' (body req))";
      cases "flag_text ''-b'' (field ''bundleId'' (body req))")
     (simp_all add: internal_error_def)

theorem sign_command_line_witness:
  \<open>executed (sign_handler example_config example_env tool_writes_nothing example_request
       example_disk) =
     [''zsign -k "/srv/uploads/s1/cert.p12" -p "secret" -m "/srv/uploads/s1/profile.mobileprovision" -o "/srv/output/MyApp_signed_123.ipa" "/srv/uploads/s1/MyApp.ipa"'']\<close>
proof -
  have n: "Number_toString 123 = ''123''"
    by code_simp
  have pn: "path_parse_name ''MyApp.ipa'' = ''MyApp''"
    by code_simp
  have pj: "path_join ''/srv/output'' ''MyApp_signed_123.ipa'' = ''/srv/output/MyApp_signed_123.ipa''"
    by code_simp
  show ?thesis
    using sign_command_line [OF example_present, of example_config example_env
        tool_writes_nothing example_disk]
    by (simp add: example_defs dq_def n pn pj flag_text_def field_def)
qed

text \<open>
  Claim C2. When \<open>req.files\<close> is absent or lacks one of the three kinds after parsing,
  the answer is status 400 with the missing-required-files message, no command is run and
  the disk is untouched.
\<close>

theorem sign_missing_files:
  assumes "files req = None \<or>
           (\<exists>fl. files req = Some fl \<and>
                 (ipa fl = None \<or> certificate fl = None \<or> provision fl = None))"
  shows "sign_handler cfg e zsign req d0 =
     \<lparr>outcome = Sent (res_json 400 (JObject
         [(''success'', JBool False),
          (''error'', JString
             ''Missing required files. Please upload IPA, P12 certificate, and provisioning profile.'')])),
      disk = d0, executed = []\<rparr>"
proof -
  have "missing_files req"
    using assms by (auto simp: missing_files_def)
  then show ?thesis by (simp add: sign_handler_def)
qed

theorem sign_missing_files_witness:
  "(files example_request_no_cert = None \<or>
      (\<exists>fl. files example_request_no_cert = Some fl \<and>
            (ipa fl = None \<or> certificate fl = None \<or> provision fl = None)))
   \<and> sign_handler example_config example_env (tool_writes ''/srv/output/x.ipa'' 1)
         example_request_no_cert example_disk =
       \<lparr>outcome = Sent \<lparr>status = 400, contentType = ''application/json'',
            payload = Json (JObject
              [(''success'', JBool False),
               (''error'', JString
                  ''Missing required files. Please upload IPA, P12 certificate, and provisioning profile.'')])\<rparr>,
        disk = example_disk, executed = []\<rparr>"
proof -
  have h: "files example_request_no_cert = None \<or>
      (\<exists>fl. files example_request_no_cert = Some fl \<and>
            (ipa fl = None \<or> certificate fl = None \<or> provision fl = None))"
    by (simp add: example_request_no_cert_def)
  show ?thesis
    using h sign_missing_files [OF h, of example_config example_env
        "tool_writes ''/srv/output/x.ipa'' 1" example_disk]
    by (simp add: res_json_def)
qed

text \<open>
  Claim C4 says that the \<open>size\<close> of a successful response is the byte length of the
  produced file. The session directory is \<open>path.join(UPLOAD_DIR, sessionId)\<close> with the
  \<open>sessionId\<close> field of the form as it was sent. For \<open>sessionId=../output\<close> the uploads
  are stored in the output directory, the tool leaves a file of 4096 bytes at the output
  path, the cleanup removes the directory of the package, which is the output directory
  with the produced file in it, and the response has status 200 and \<open>size\<close> 0.
\<close>

theorem sign_size_after_cleanup_counterexample:
  "statSync ''/srv/output/MyApp_signed_123.ipa''
     (snd (tool_writes ''/srv/output/MyApp_signed_123.ipa'' 4096
             (hd (executed (post_sign example_config example_env
                    (tool_writes ''/srv/output/MyApp_signed_123.ipa'' 4096)
                    example_traversal_parts example_empty_disk)))
             (in_disk example_traversal_stored)))
     = Inr \<lparr>isDirectory = False, size_bytes = 4096, birthtime = 123\<rparr>
   \<and> outcome (post_sign example_config example_env
        (tool_writes ''/srv/output/MyApp_signed_123.ipa'' 4096) example_traversal_parts
        example_empty_disk) =
     Sent \<lparr>status = 200, contentType = ''application/json'',
           payload = Json (JObject
             [(''success'', JBool True),
              (''message'', JString ''IPA signed successfully''),
              (''data'', JObject
                 [(''fileName'', JString ''MyApp_signed_123.ipa''),
                  (''downloadUrl'',
                     JString ''https://sign.example.com/output/MyApp_signed_123.ipa''),
                  (''installUrl'', JString
                     ''itms-services://?action=download-manifest&url=https%3A%2F%2Fsign.example.com%2Fapi%2Fmanifest%2FMyApp_signed_123.ipa''),
                  (''size'', JNumber 0)])])\<rparr>
   \<and> disk (post_sign example_config example_env
        (tool_writes ''/srv/output/MyApp_signed_123.ipa'' 4096) example_traversal_parts
        example_empty_disk) = [(''/srv/uploads'', directory 1)]"
proof -
  have f: "files \<lparr>body = in_body example_traversal_stored,
                  files = Some (in_files example_traversal_stored)\<rparr>
      = Some (in_files example_traversal_stored)"
    "ipa (in_files example_traversal_stored) = Some (\<lparr>originalname = ''MyApp.ipa'',
        path = ''/srv/output/MyApp.ipa'', size_f = 10\<rparr> # [])"
    "certificate (in_files example_traversal_stored) = Some (\<lparr>originalname = ''cert.p12'',
        path = ''/srv/output/cert.p12'', size_f = 5\<rparr> # [])"
    "provision (in_files example_traversal_stored) =
       Some (\<lparr>originalname = ''profile.mobileprovision'',
        path = ''/srv/output/profile.mobileprovision'', size_f = 3\<rparr> # [])"
    by (simp_all add: example_traversal_stored_def)
  have pn: "path_parse_name ''MyApp.ipa'' = ''MyApp''"
    by code_simp
  have "Number_toString 123 = ''123''"
    by code_simp
  then have nt: "Number_toString (now example_env) = ''123''"
    by (simp add: example_env_def)
  have pj: "path_join ''/srv/output'' ''MyApp_signed_123.ipa'' = ''/srv/output/MyApp_signed_123.ipa''"
    by code_simp
  have enc: "encodeURIComponent ''https://sign.example.com/api/manifest/MyApp_signed_123.ipa''
      = ''https%3A%2F%2Fsign.example.com%2Fapi%2Fmanifest%2FMyApp_signed_123.ipa''"
    by code_simp
  have run: "post_sign example_config example_env zsign example_traversal_parts
      example_empty_disk =
     sign_handler example_config example_env zsign
       \<lparr>body = in_body example_traversal_stored,
        files = Some (in_files example_traversal_stored)\<rparr>
       (in_disk example_traversal_stored)" for zsign
    by (simp add: post_sign_def example_traversal_intake)
  show ?thesis
    unfolding run sign_handler_present [OF f] 
    by (simp add: pn nt pj Let_def tool_writes_def sign_callback_def
        example_traversal_stored_def existsSync_def
        unlinkSync_def remove_entry_def rmSync_recursive_force_def inside_def
        example_traversal_paths output_size_def statSync_def res_json_def
        directory_def regular_def zsign_command_flags flag_text_def field_def enc
        example_config_def [THEN arg_cong, of DOMAIN, simplified])
qed

text \<open>
  Claim C4, amended. A successful sign of a package named \<open>N.ipa\<close> (a name without
  directory part that passed \<open>fileFilter\<close>, as every stored upload has:
  \<open>uploaded_files_accepted\<close>) answers with \<open>fileName\<close> equal to \<open>N\<close>, \<open>_signed_\<close>, the
  timestamp and \<open>.ipa\<close>; with \<open>installUrl\<close> ending in the URL-encoded domain,
  \<open>/api/manifest/\<close> and that file name; and with \<open>size\<close> equal to the byte length of the
  file the tool left at the output path, except that \<open>size\<close> is 0 when the tool left
  nothing there or when the cleanup removed it: when the output path is the path of an
  upload, or lies in the directory of the uploaded package. In that case nothing is at the
  output path after the request.
\<close>

theorem sign_success_response:
  assumes "files req = Some fl" and "ipa fl = Some (ipaFile # r1)"
    and "certificate fl = Some (certFile # r2)" and "provision fl = Some (provisionFile # r3)"
    and "originalname ipaFile = N @ ''.ipa''"
    and "fileFilter (originalname ipaFile)"
    and "CHR ''/'' \<notin> set N"
    and "executed (sign_handler cfg e zsign req d0) = [cmd]"
    and "zsign cmd d0 = (r, d1)"
    and "error r = None"
    and "\<forall>p \<in> {path ipaFile, path certFile, path provisionFile}. regular_or_absent d1 p"
    and "fileName = N @ ''_signed_'' @ Number_toString (now e) @ ''.ipa''"
    and "outputPath = path_join (OUTPUT_DIR cfg) fileName"
    and "removed = (outputPath \<in> {path ipaFile, path certFile, path provisionFile}
            \<or> path_dirname (path ipaFile) \<notin> {path ipaFile, path certFile, path provisionFile}
              \<and> existsSync (path_dirname (path ipaFile)) d1
              \<and> inside (path_dirname (path ipaFile)) outputPath)"
  shows "outcome (sign_handler cfg e zsign req d0) =
       Sent \<lparr>status = 200, contentType = ''application/json'',
             payload = Json (JObject
               [(''success'', JBool True),
                (''message'', JString ''IPA signed successfully''),
                (''data'', JObject
                   [(''fileName'', JString fileName),
                    (''downloadUrl'', JString (DOMAIN cfg @ ''/output/'' @ fileName)),
                    (''installUrl'', JString (''itms-services://?action=download-manifest&url=''
                        @ encodeURIComponent (DOMAIN cfg) @ ''%2Fapi%2Fmanifest%2F''
                        @ encodeURIComponent fileName)),
                    (''size'', JNumber
                        (if removed then 0
                         else case statSync outputPath d1 of
                                Inr n \<Rightarrow> size_bytes n | Inl err \<Rightarrow> 0))])])\<rparr>
     \<and> statSync outputPath (disk (sign_handler cfg e zsign req d0)) =
         (if removed then Inl (Fs_error ENOENT ''stat'' outputPath)
          else statSync outputPath d1)"
proof -
  have "N \<noteq> []"
    using assms(5,6) fileFilter_dot_ipa by auto
  then have fn: "fileName = path_parse_name (originalname ipaFile) @ ''_signed_''
                      @ Number_toString (now e) @ ''.ipa''"
    using assms(5,7,12) by (simp add: path_parse_name_ipa)
  from sign_callback_success [OF assms(11) assms(10), of cfg fileName outputPath]
  obtain d2 where d2: "after_cleanup ipaFile certFile provisionFile d1 d2"
    and cb: "sign_callback cfg ipaFile certFile provisionFile fileName outputPath r d1 =
     (Sent (res_json 200 (JObject
        [(''success'', JBool True),
         (''message'', JString ''IPA signed successfully''),
         (''data'', JObject
            [(''fileName'', JString fileName),
             (''downloadUrl'', JString (DOMAIN cfg @ ''/output/'' @ fileName)),
             (''installUrl'', JString (''itms-services://?action=download-manifest&url=''
                 @ encodeURIComponent (DOMAIN cfg @ ''/api/manifest/'' @ fileName))),
             (''size'', JNumber (case map_of d2 outputPath of
                                   None \<Rightarrow> 0 | Some n \<Rightarrow> size_bytes n))])])),
      d2)"
    by blast
  have enc: "encodeURIComponent (DOMAIN cfg @ ''/api/manifest/'' @ fileName) =
      encodeURIComponent (DOMAIN cfg) @ ''%2Fapi%2Fmanifest%2F'' @ encodeURIComponent fileName"
    by (simp only: encodeURIComponent_append encode_manifest_path)
  note run = sign_handler_command [OF assms(1-4) assms(8,9) fn, folded assms(13),
      unfolded cb enc]
  have kept: "map_of d2 outputPath = (if removed then None else map_of d1 outputPath)"
    using d2 unfolding after_cleanup_def assms(14) by auto
  show ?thesis
    unfolding run
    by (simp add: res_json_def statSync_def kept split: option.splits)
qed

theorem sign_success_response_witness:
  "outcome (sign_handler example_config example_env
       (tool_writes ''/srv/output/MyApp_signed_123.ipa'' 4096) example_request example_disk) =
     Sent \<lparr>status = 200, contentType = ''application/json'',
           payload = Json (JObject
             [(''success'', JBool True),
              (''message'', JString ''IPA signed successfully''),
              (''data'', JObject
                 [(''fileName'', JString ''MyApp_signed_123.ipa''),
                  (''downloadUrl'',
                     JString ''https://sign.example.com/output/MyApp_signed_123.ipa''),
                  (''installUrl'', JString
                     ''itms-services://?action=download-manifest&url=https%3A%2F%2Fsign.example.com%2Fapi%2Fmanifest%2FMyApp_signed_123.ipa''),
                  (''size'', JNumber 4096)])])\<rparr>
   \<and> statSync ''/srv/output/MyApp_signed_123.ipa''
       (disk (sign_handler example_config example_env
          (tool_writes ''/srv/output/MyApp_signed_123.ipa'' 4096) example_request example_disk))
     = Inr \<lparr>isDirectory = False, size_bytes = 4096, birthtime = 123\<rparr>"
proof -
  let ?out = "''/srv/output/MyApp_signed_123.ipa''"
  let ?d1 = "example_disk @ [(?out, regular 4096 123)]"
  have t: "tool_writes ?out 4096 example_command example_disk =
      (\<lparr>error = None, stdout = ''>>> Signed OK'', stderr = []\<rparr>, ?d1)"
    by (simp add: tool_writes_def)
  have nm: "originalname example_ipa = ''MyApp'' @ ''.ipa''"
    by (simp add: example_ipa_def)
  have ff: "fileFilter (originalname example_ipa)"
    unfolding example_ipa_def by code_simp
  have "Number_toString 123 = ''123''"
    by code_simp
  then have fn: "''MyApp_signed_123.ipa'' = ''MyApp'' @ ''_signed_''
      @ Number_toString (now example_env) @ ''.ipa''"
    by (simp add: example_env_def)
  have st: "statSync ?out ?d1 = Inr (regular 4096 123)"
    by (simp add: statSync_def example_defs)
  have np: "?out \<notin> {path example_ipa, path example_cert, path example_profile}"
    by (simp add: example_defs)
  have ni: "\<not> inside (path_dirname (path example_ipa)) ?out"
    unfolding example_ipa_def by code_simp
  have e1: "encodeURIComponent ''https://sign.example.com'' = ''https%3A%2F%2Fsign.example.com''"
    by code_simp
  have e2: "encodeURIComponent ''MyApp_signed_123.ipa'' = ''MyApp_signed_123.ipa''"
    by code_simp
  have rm: "False = (?out \<in> {path example_ipa, path example_cert, path example_profile}
            \<or> path_dirname (path example_ipa)
                 \<notin> {path example_ipa, path example_cert, path example_profile}
              \<and> existsSync (path_dirname (path example_ipa)) ?d1
              \<and> inside (path_dirname (path example_ipa)) ?out)"
    using np ni by simp
  show ?thesis
    using sign_success_response [where zsign = "tool_writes ?out 4096" and ?d0.0 = example_disk
      and N = "''MyApp''",
      OF example_present nm ff _ example_executed t _ example_regular fn
         example_outputPath [symmetric] rm]
    by (simp add: example_config_def e1 e2 st [unfolded regular_def] regular_def)
qed

text \<open>
  Claim C5. When the tool exits nonzero, the answer is status 500 with \<open>success: false\<close>
  and, as \<open>details\<close>, the tool's standard error unchanged, or the error message when
  standard error is empty.
\<close>

theorem sign_tool_failure:
  assumes "files req = Some fl" and "ipa fl = Some (ipaFile # r1)"
    and "certificate fl = Some (certFile # r2)" and "provision fl = Some (provisionFile # r3)"
    and "executed (sign_handler cfg e zsign req d0) = [cmd]"
    and "zsign cmd d0 = (r, d1)"
    and "error r = Some message"
    and "\<forall>p \<in> {path ipaFile, path certFile, path provisionFile}. regular_or_absent d1 p"
  shows "outcome (sign_handler cfg e zsign req d0) =
     Sent \<lparr>status = 500, contentType = ''application/json'',
           payload = Json (JObject
             [(''success'', JBool False),
              (''error'', JString
                 ''Failed to sign IPA. Please check your certificate and provisioning profile.''),
              (''details'', JString (if stderr r \<noteq> [] then stderr r else message))])\<rparr>"
proof -
  define fileName where "fileName = path_parse_name (originalname ipaFile) @ ''_signed_''
                      @ Number_toString (now e) @ ''.ipa''"
  from sign_callback_failure [OF assms(8) assms(7), of cfg fileName
      "path_join (OUTPUT_DIR cfg) fileName"]
  obtain d2 where cb: "sign_callback cfg ipaFile certFile provisionFile fileName
        (path_join (OUTPUT_DIR cfg) fileName) r d1 =
     (Sent (res_json 500 (JObject
        [(''success'', JBool False),
         (''error'', JString
            ''Failed to sign IPA. Please check your certificate and provisioning profile.''),
         (''details'', JString (if stderr r \<noteq> [] then stderr r else message))])), d2)"
    by blast
  show ?thesis
    unfolding sign_handler_command [OF assms(1-6) fileName_def] cb
    by (simp add: res_json_def)
qed

theorem sign_tool_failure_witness:
  "outcome (sign_handler example_config example_env (tool_fails ''zsign: bad certificate'')
       example_request example_disk) =
     Sent \<lparr>status = 500, contentType = ''application/json'',
           payload = Json (JObject
             [(''success'', JBool False),
              (''error'', JString
                 ''Failed to sign IPA. Please check your certificate and provisioning profile.''),
              (''details'', JString ''zsign: bad certificate'')])\<rparr>"
proof -
  have t: "tool_fails ''zsign: bad certificate'' example_command example_disk =
      (\<lparr>error = Some ''Command failed'', stdout = [], stderr = ''zsign: bad certificate''\<rparr>,
       example_disk)"
    by (simp add: tool_fails_def)
  have r: "\<forall>p \<in> {path example_ipa, path example_cert, path example_profile}.
     regular_or_absent example_disk p"
    using example_regular [of "[]"] by simp
  show ?thesis
    using sign_tool_failure [where zsign = "tool_fails ''zsign: bad certificate''"
        and ?d0.0 = example_disk, OF example_present example_executed t _ r]
    by simp
qed

text \<open>
  Claim C10. When the tool exits zero and left nothing at the output path, the answer is
  still \<open>success: true\<close> with the message \<open>IPA signed successfully\<close>, and \<open>size\<close> is 0.
\<close>

theorem sign_success_without_output:
  assumes "files req = Some fl" and "ipa fl = Some (ipaFile # r1)"
    and "certificate fl = Some (certFile # r2)" and "provision fl = Some (provisionFile # r3)"
    and "executed (sign_handler cfg e zsign req d0) = [cmd]"
    and "zsign cmd d0 = (r, d1)"
    and "error r = None"
    and "\<forall>p \<in> {path ipaFile, path certFile, path provisionFile}. regular_or_absent d1 p"
    and "fileName = path_parse_name (originalname ipaFile) @ ''_signed_''
                      @ Number_toString (now e) @ ''.ipa''"
    and "\<not> existsSync (path_join (OUTPUT_DIR cfg) fileName) d1"
  shows "outcome (sign_handler cfg e zsign req d0) =
     Sent \<lparr>status = 200, contentType = ''application/json'',
           payload = Json (JObject
             [(''success'', JBool True),
              (''message'', JString ''IPA signed successfully''),
              (''data'', JObject
                 [(''fileName'', JString fileName),
                  (''downloadUrl'', JString (DOMAIN cfg @ ''/output/'' @ fileName)),
                  (''installUrl'', JString (''itms-services://?action=download-manifest&url=''
                      @ encodeURIComponent (DOMAIN cfg @ ''/api/manifest/'' @ fileName))),
                  (''size'', JNumber 0)])])\<rparr>"
proof -
  from sign_callback_success [OF assms(8) assms(7), of cfg fileName
      "path_join (OUTPUT_DIR cfg) fileName"]
  obtain d2 where d2: "after_cleanup ipaFile certFile provisionFile d1 d2"
    and cb: "sign_callback cfg ipaFile certFile provisionFile fileName
        (path_join (OUTPUT_DIR cfg) fileName) r d1 =
     (Sent (res_json 200 (JObject
        [(''success'', JBool True),
         (''message'', JString ''IPA signed successfully''),
         (''data'', JObject
            [(''fileName'', JString fileName),
             (''downloadUrl'', JString (DOMAIN cfg @ ''/output/'' @ fileName)),
             (''installUrl'', JString (''itms-services://?action=download-manifest&url=''
                 @ encodeURIComponent (DOMAIN cfg @ ''/api/manifest/'' @ fileName))),
             (''size'', JNumber (case map_of d2 (path_join (OUTPUT_DIR cfg) fileName) of
                                   None \<Rightarrow> 0 | Some n \<Rightarrow> size_bytes n))])])),
      d2)"
    by blast
  have "map_of d1 (path_join (OUTPUT_DIR cfg) fileName) = None"
    using assms(10) by (simp add: existsSync_def)
  then have "map_of d2 (path_join (OUTPUT_DIR cfg) fileName) = None"
    using d2 by (simp add: after_cleanup_def)
  then show ?thesis
    unfolding sign_handler_command [OF assms(1-6) assms(9)] cb
    by (simp add: res_json_def)
qed

theorem sign_success_without_output_witness:
  "outcome (sign_handler example_config example_env tool_writes_nothing example_request
       example_disk) =
     Sent \<lparr>status = 200, contentType = ''application/json'',
           payload = Json (JObject
             [(''success'', JBool True),
              (''message'', JString ''IPA signed successfully''),
              (''data'', JObject
                 [(''fileName'', JString ''MyApp_signed_123.ipa''),
                  (''downloadUrl'',
                     JString ''https://sign.example.com/output/MyApp_signed_123.ipa''),
                  (''installUrl'', JString
                     ''itms-services://?action=download-manifest&url=https%3A%2F%2Fsign.example.com%2Fapi%2Fmanifest%2FMyApp_signed_123.ipa''),
                  (''size'', JNumber 0)])])\<rparr>"
proof -
  have t: "tool_writes_nothing example_command example_disk =
      (\<lparr>error = None, stdout = [], stderr = []\<rparr>, example_disk)"
    by (simp add: tool_writes_nothing_def)
  have r: "\<forall>p \<in> {path example_ipa, path example_cert, path example_profile}.
     regular_or_absent example_disk p"
    using example_regular [of "[]"] by simp
  have x: "\<not> existsSync (path_join (OUTPUT_DIR example_config) ''MyApp_signed_123.ipa'')
              example_disk"
    unfolding example_outputPath by (simp add: existsSync_def example_defs)
  have enc: "encodeURIComponent ''https://sign.example.com/api/manifest/MyApp_signed_123.ipa''
      = ''https%3A%2F%2Fsign.example.com%2Fapi%2Fmanifest%2FMyApp_signed_123.ipa''"
    by code_simp
  show ?thesis
    using sign_success_without_output [where zsign = tool_writes_nothing
        and ?d0.0 = example_disk, OF example_present example_executed t _ r
        example_fileName [symmetric] x]
    by (simp add: example_config_def enc)
qed

section \<open>Properties of the manifest and of the artifact registry\<close>

text \<open>
  Claim C7 says that a manifest request for a file name without an artifact in the output
  directory is answered with 404. The handler never looks at the disk: for a name that
  exists nowhere the status is not 404.
\<close>

theorem manifest_missing_artifact_counterexample:
  "\<not> existsSync (path_join (OUTPUT_DIR example_config) ''ghost.ipa'') example_output_disk
   \<and> status (fst (get_manifest example_config ''ghost.ipa'' example_output_disk)) \<noteq> 404"
proof -
  have "path_join ''/srv/output'' ''ghost.ipa'' = ''/srv/output/ghost.ipa''"
    by code_simp
  then have g: "path_join (OUTPUT_DIR example_config) ''ghost.ipa'' = ''/srv/output/ghost.ipa''"
    by (simp add: example_config_def)
  show ?thesis
    unfolding g by (simp add: existsSync_def example_output_disk_def get_manifest_def Let_def)
qed

text \<open>
  Claim C7, amended. For every file name and every state of the disk the manifest request is
  answered with status 200 and the same document, whether or not an artifact of that name
  exists, and the disk is left as it was.
\<close>

theorem manifest_ignores_disk:
  "fst (get_manifest cfg filename d) = fst (get_manifest cfg filename [])
   \<and> status (fst (get_manifest cfg filename d)) = 200
   \<and> snd (get_manifest cfg filename d) = d"
  by (simp add: get_manifest_def Let_def)

text \<open>
  Claim C8. When the output directory can be read, \<open>GET /api/files\<close> answers 200 with a
  \<open>files\<close> array that has one object for each directory entry whose name ends with \<open>.ipa\<close>
  and no other; every object has the members \<open>name\<close>, \<open>size\<close>, \<open>created\<close> and
  \<open>downloadUrl\<close>, holding the name, the size and creation time of its \<open>stat\<close> and the
  domain followed by \<open>/output/\<close> and the name, and the objects are ordered by creation
  time, newest first.
\<close>

theorem list_files_contract:
  assumes "readdirSync (OUTPUT_DIR cfg) d = Inr names"
  shows "\<exists>fl :: file_info list.
     get_files cfg d =
       \<lparr>status = 200, contentType = ''application/json'',
        payload = Json (JObject
          [(''success'', JBool True),
           (''files'', JArray (map (\<lambda>i. JObject
                [(''name'', JString (name i)), (''size'', JNumber (size_i i)),
                 (''created'', JDate (created i)),
                 (''downloadUrl'', JString (downloadUrl i))]) fl))])\<rparr>
     \<and> mset (map name fl) = mset (filter (\<lambda>file. endsWith file ''.ipa'') names)
     \<and> (\<forall>i \<in> set fl. \<exists>st. statSync (path_join (OUTPUT_DIR cfg) (name i)) d = Inr st
            \<and> size_i i = size_bytes st \<and> created i = birthtime st
            \<and> downloadUrl i = DOMAIN cfg @ ''/output/'' @ name i)
     \<and> sorted_wrt (\<lambda>a b. created b \<le> created a) fl"
proof -
  let ?ns = "filter (\<lambda>file. endsWith file ''.ipa'') names"
  have "\<forall>n \<in> set ?ns. existsSync (path_join (OUTPUT_DIR cfg) n) d"
    using readdirSync_exists [OF assms] by simp
  from file_infos_total [OF this] obtain infos where
    infos: "file_infos cfg d ?ns = Inr infos" by blast
  let ?fl = "Array_sort (\<lambda>a b. int (created b) - int (created a)) infos"
  have lf: "list_files cfg d = Inr ?fl"
    by (simp add: list_files_def assms infos)
  have "get_files cfg d =
       \<lparr>status = 200, contentType = ''application/json'',
        payload = Json (JObject [(''success'', JBool True),
                                 (''files'', JArray (map info_json ?fl))])\<rparr>"
    by (simp add: get_files_def lf res_json_def)
  then have g1: "get_files cfg d =
       \<lparr>status = 200, contentType = ''application/json'',
        payload = Json (JObject
          [(''success'', JBool True),
           (''files'', JArray (map (\<lambda>i. JObject
                [(''name'', JString (name i)), (''size'', JNumber (size_i i)),
                 (''created'', JDate (created i)),
                 (''downloadUrl'', JString (downloadUrl i))]) ?fl))])\<rparr>"
    unfolding info_json_def .
  have g2: "mset (map name ?fl) = mset ?ns"
    using list_files_names [OF lf] assms by simp
  have g3: "\<forall>i \<in> set ?fl. \<exists>st. statSync (path_join (OUTPUT_DIR cfg) (name i)) d = Inr st
            \<and> size_i i = size_bytes st \<and> created i = birthtime st
            \<and> downloadUrl i = DOMAIN cfg @ ''/output/'' @ name i"
  proof
    fix i assume "i \<in> set ?fl"
    then have "i \<in># mset ?fl" by simp
    then have "i \<in> set infos" unfolding mset_Array_sort by simp
    from file_infos_fields [OF infos this] show "\<exists>st. statSync (path_join (OUTPUT_DIR cfg) (name i)) d = Inr st
            \<and> size_i i = size_bytes st \<and> created i = birthtime st
            \<and> downloadUrl i = DOMAIN cfg @ ''/output/'' @ name i" .
  qed
  have g4: "sorted_wrt (\<lambda>a b. created b \<le> created a) ?fl"
    by (rule sorted_Array_sort_created)
  show ?thesis
    by (rule exI [of _ ?fl], intro conjI) (rule g1, rule g2, rule g3, rule g4)
qed

theorem list_files_contract_witness:
  "readdirSync (OUTPUT_DIR example_config) example_output_disk =
     Inr [''old_signed_7.ipa'', ''notes.txt'', ''new_signed_9.ipa'']
   \<and> get_files example_config example_output_disk =
       \<lparr>status = 200, contentType = ''application/json'',
        payload = Json (JObject
          [(''success'', JBool True),
           (''files'', JArray
              [JObject [(''name'', JString ''new_signed_9.ipa''), (''size'', JNumber 200),
                        (''created'', JDate 9),
                        (''downloadUrl'',
                           JString ''https://sign.example.com/output/new_signed_9.ipa'')],
               JObject [(''name'', JString ''old_signed_7.ipa''), (''size'', JNumber 100),
                        (''created'', JDate 7),
                        (''downloadUrl'',
                           JString ''https://sign.example.com/output/old_signed_7.ipa'')]])])\<rparr>"
proof -
  have "readdirSync ''/srv/output'' example_output_disk =
     Inr [''old_signed_7.ipa'', ''notes.txt'', ''new_signed_9.ipa'']"
    by code_simp
  then have r: "readdirSync (OUTPUT_DIR example_config) example_output_disk =
     Inr [''old_signed_7.ipa'', ''notes.txt'', ''new_signed_9.ipa'']"
    by (simp add: example_config_def)
  have f: "filter (\<lambda>file. endsWith file ''.ipa'')
      [''old_signed_7.ipa'', ''notes.txt'', ''new_signed_9.ipa''] =
      [''old_signed_7.ipa'', ''new_signed_9.ipa'']"
    by code_simp
  have "path_join ''/srv/output'' ''old_signed_7.ipa'' = ''/srv/output/old_signed_7.ipa''"
    "path_join ''/srv/output'' ''new_signed_9.ipa'' = ''/srv/output/new_signed_9.ipa''"
    by code_simp+
  then have st:
    "statSync (path_join (OUTPUT_DIR example_config) ''old_signed_7.ipa'') example_output_disk
       = Inr (regular 100 7)"
    "statSync (path_join (OUTPUT_DIR example_config) ''new_signed_9.ipa'') example_output_disk
       = Inr (regular 200 9)"
    by (simp_all add: example_config_def statSync_def example_output_disk_def)
  from list_files_contract [OF r, unfolded f] obtain fl :: "file_info list" where
    g: "get_files example_config example_output_disk =
       \<lparr>status = 200, contentType = ''application/json'',
        payload = Json (JObject
          [(''success'', JBool True),
           (''files'', JArray (map (\<lambda>i. JObject
                [(''name'', JString (name i)), (''size'', JNumber (size_i i)),
                 (''created'', JDate (created i)),
                 (''downloadUrl'', JString (downloadUrl i))]) fl))])\<rparr>"
    and m: "mset (map name fl) = mset [''old_signed_7.ipa'', ''new_signed_9.ipa'']"
    and i: "\<forall>i \<in> set fl. \<exists>st.
         statSync (path_join (OUTPUT_DIR example_config) (name i)) example_output_disk = Inr st
         \<and> size_i i = size_bytes st \<and> created i = birthtime st
         \<and> downloadUrl i = DOMAIN example_config @ ''/output/'' @ name i"
    and s: "sorted_wrt (\<lambda>a b. created b \<le> created a) fl"
    by blast
  from m have "size (mset (map name fl)) = 2"
    by simp
  then have "length fl = 2"
    by simp
  then obtain a b where fl: "fl = [a, b]"
    by (cases fl; cases "tl fl") auto
  from mset_eq_setD [OF m]
  have nm: "(name a = ''old_signed_7.ipa'' \<and> name b = ''new_signed_9.ipa'')
      \<or> (name a = ''new_signed_9.ipa'' \<and> name b = ''old_signed_7.ipa'')"
    unfolding fl by (simp add: doubleton_eq_iff)
  have old: "created x = 7 \<and> size_i x = 100
      \<and> downloadUrl x = ''https://sign.example.com/output/old_signed_7.ipa''"
    if "x \<in> set fl" "name x = ''old_signed_7.ipa''" for x
  proof -
    from i that(1) obtain n where n:
      "statSync (path_join (OUTPUT_DIR example_config) (name x)) example_output_disk = Inr n"
      "size_i x = size_bytes n" "created x = birthtime n"
      "downloadUrl x = DOMAIN example_config @ ''/output/'' @ name x"
      by blast
    from n(1) have "n = regular 100 7"
      unfolding that(2) st by simp
    then show ?thesis
      using n(2-4) by (simp add: that(2) regular_def example_config_def)
  qed
  have new: "created x = 9 \<and> size_i x = 200
      \<and> downloadUrl x = ''https://sign.example.com/output/new_signed_9.ipa''"
    if "x \<in> set fl" "name x = ''new_signed_9.ipa''" for x
  proof -
    from i that(1) obtain n where n:
      "statSync (path_join (OUTPUT_DIR example_config) (name x)) example_output_disk = Inr n"
      "size_i x = size_bytes n" "created x = birthtime n"
      "downloadUrl x = DOMAIN example_config @ ''/output/'' @ name x"
      by blast
    from n(1) have "n = regular 200 9"
      unfolding that(2) st by simp
    then show ?thesis
      using n(2-4) by (simp add: that(2) regular_def example_config_def)
  qed
  from nm s old [of a] old [of b] new [of a] new [of b]
  have "name a = ''new_signed_9.ipa'' \<and> name b = ''old_signed_7.ipa''"
    unfolding fl by auto
  with old [of b] new [of a] have
    "map (\<lambda>i. JObject
                [(''name'', JString (name i)), (''size'', JNumber (size_i i)),
                 (''created'', JDate (created i)),
                 (''downloadUrl'', JString (downloadUrl i))]) fl =
     [JObject [(''name'', JString ''new_signed_9.ipa''), (''size'', JNumber 200),
                        (''created'', JDate 9),
                        (''downloadUrl'',
                           JString ''https://sign.example.com/output/new_signed_9.ipa'')],
               JObject [(''name'', JString ''old_signed_7.ipa''), (''size'', JNumber 100),
                        (''created'', JDate 7),
                        (''downloadUrl'',
                           JString ''https://sign.example.com/output/old_signed_7.ipa'')]]"
    unfolding fl by simp
  with g r show ?thesis by simp
qed

text \<open>
  Claim C9 says that the answer is 404 when no file of that name exists in the output
  directory. The name is joined to the output directory with \<open>path.join\<close> and may lead
  out of it: for \<open>../uploads/keep.txt\<close> the output directory has no entry of that name,
  yet the answer reports success and the file \<open>/srv/uploads/keep.txt\<close>, outside the
  output directory, is removed.
\<close>

theorem delete_outside_output_counterexample:
  "readdirSync (OUTPUT_DIR example_config)
      (example_output_disk @ [(''/srv/uploads/keep.txt'', regular 5 8)])
     = Inr [''old_signed_7.ipa'', ''notes.txt'', ''new_signed_9.ipa'']
   \<and> delete_file example_config ''../uploads/keep.txt''
       (example_output_disk @ [(''/srv/uploads/keep.txt'', regular 5 8)]) =
     (\<lparr>status = 200, contentType = ''application/json'',
       payload = Json (JObject [(''success'', JBool True),
                                (''message'', JString ''File deleted successfully'')])\<rparr>,
      example_output_disk)"
proof -
  have "readdirSync ''/srv/output''
      (example_output_disk @ [(''/srv/uploads/keep.txt'', regular 5 8)])
     = Inr [''old_signed_7.ipa'', ''notes.txt'', ''new_signed_9.ipa'']"
    by code_simp
  then have r: "readdirSync (OUTPUT_DIR example_config)
      (example_output_disk @ [(''/srv/uploads/keep.txt'', regular 5 8)])
     = Inr [''old_signed_7.ipa'', ''notes.txt'', ''new_signed_9.ipa'']"
    by (simp add: example_config_def)
  have "path_join ''/srv/output'' ''../uploads/keep.txt'' = ''/srv/uploads/keep.txt''"
    by code_simp
  then have p: "path_join (OUTPUT_DIR example_config) ''../uploads/keep.txt''
      = ''/srv/uploads/keep.txt''"
    by (simp add: example_config_def)
  have "delete_file example_config ''../uploads/keep.txt''
       (example_output_disk @ [(''/srv/uploads/keep.txt'', regular 5 8)]) =
     (\<lparr>status = 200, contentType = ''application/json'',
       payload = Json (JObject [(''success'', JBool True),
                                (''message'', JString ''File deleted successfully'')])\<rparr>,
      example_output_disk)"
    unfolding delete_file_def p
    by (simp add: existsSync_def unlinkSync_def remove_entry_def example_output_disk_def
        regular_def directory_def res_json_def)
  with r show ?thesis by simp
qed

text \<open>
  Claim C9, amended. \<open>DELETE /api/files/:filename\<close> looks at the path
  \<open>path.join(OUTPUT_DIR, filename)\<close>, which lies outside the output directory when the
  name climbs with \<open>..\<close>. When nothing exists at that path the answer is 404 and nothing
  changes. When a regular file exists there, the answer reports success, the file is gone
  from the disk, every other path is as before, and a listing taken afterwards does not
  contain the name. When a directory exists there, the answer is 500 with the message of
  the failed \<open>unlink\<close> and nothing changes.
\<close>

theorem delete_file_contract:
  "(\<not> existsSync (path_join (OUTPUT_DIR cfg) filename) d \<longrightarrow>
      delete_file cfg filename d =
        (\<lparr>status = 404, contentType = ''application/json'',
          payload = Json (JObject [(''success'', JBool False),
                                   (''error'', JString ''File not found'')])\<rparr>, d))
   \<and> (\<forall>n. statSync (path_join (OUTPUT_DIR cfg) filename) d = Inr n \<and> \<not> isDirectory n \<longrightarrow>
        (\<exists>d'. delete_file cfg filename d =
                 (\<lparr>status = 200, contentType = ''application/json'',
                   payload = Json (JObject [(''success'', JBool True),
                                            (''message'', JString ''File deleted successfully'')])\<rparr>,
                  d')
             \<and> \<not> existsSync (path_join (OUTPUT_DIR cfg) filename) d'
             \<and> (\<forall>q. q \<noteq> path_join (OUTPUT_DIR cfg) filename \<longrightarrow> map_of d' q = map_of d q)
             \<and> (\<forall>fl. list_files cfg d' = Inr fl \<longrightarrow> filename \<notin> set (map name fl))))
   \<and> (\<forall>n. statSync (path_join (OUTPUT_DIR cfg) filename) d = Inr n \<and> isDirectory n \<longrightarrow>
        delete_file cfg filename d =
          (\<lparr>status = 500, contentType = ''application/json'',
            payload = Json (JObject
              [(''success'', JBool False),
               (''error'', JString (''EISDIR: illegal operation on a directory, unlink ''
                   @ [CHR 0x27] @ path_join (OUTPUT_DIR cfg) filename @ [CHR 0x27]))])\<rparr>, d))"
proof (intro conjI allI impI)
  assume "\<not> existsSync (path_join (OUTPUT_DIR cfg) filename) d"
  then show "delete_file cfg filename d =
        (\<lparr>status = 404, contentType = ''application/json'',
          payload = Json (JObject [(''success'', JBool False),
                                   (''error'', JString ''File not found'')])\<rparr>, d)"
    by (simp add: delete_file_def res_json_def)
next
  fix n
  let ?p = "path_join (OUTPUT_DIR cfg) filename"
  let ?d' = "remove_entry ?p d"
  assume "statSync ?p d = Inr n \<and> \<not> isDirectory n"
  then have n: "map_of d ?p = Some n" "\<not> isDirectory n"
    by (auto simp: statSync_def split: option.splits)
  have del: "delete_file cfg filename d =
                 (\<lparr>status = 200, contentType = ''application/json'',
                   payload = Json (JObject [(''success'', JBool True),
                                            (''message'', JString ''File deleted successfully'')])\<rparr>,
                  ?d')"
    using n by (simp add: delete_file_def existsSync_def unlinkSync_def res_json_def)
  have gone: "\<not> existsSync ?p ?d'"
    by (simp add: existsSync_def map_of_remove_entry)
  have others: "\<forall>q. q \<noteq> ?p \<longrightarrow> map_of ?d' q = map_of d q"
    by (simp add: map_of_remove_entry)
  have listing: "\<forall>fl. list_files cfg ?d' = Inr fl \<longrightarrow> filename \<notin> set (map name fl)"
  proof (intro allI impI notI)
    fix fl assume lf: "list_files cfg ?d' = Inr fl" and mem: "filename \<in> set (map name fl)"
    from list_files_names [OF lf] obtain names where
      names: "readdirSync (OUTPUT_DIR cfg) ?d' = Inr names"
        "mset (map name fl) = mset (filter (\<lambda>file. endsWith file ''.ipa'') names)" by blast
    from mem have "filename \<in># mset (map name fl)" by simp
    then have "filename \<in> set names" unfolding names(2) by simp
    from readdirSync_exists [OF names(1) this] gone show False by simp
  qed
  show "\<exists>d'. delete_file cfg filename d =
                 (\<lparr>status = 200, contentType = ''application/json'',
                   payload = Json (JObject [(''success'', JBool True),
                                            (''message'', JString ''File deleted successfully'')])\<rparr>,
                  d')
             \<and> \<not> existsSync (path_join (OUTPUT_DIR cfg) filename) d'
             \<and> (\<forall>q. q \<noteq> path_join (OUTPUT_DIR cfg) filename \<longrightarrow> map_of d' q = map_of d q)
             \<and> (\<forall>fl. list_files cfg d' = Inr fl \<longrightarrow> filename \<notin> set (map name fl))"
    using del gone others listing by blast
next
  fix n
  let ?p = "path_join (OUTPUT_DIR cfg) filename"
  assume "statSync ?p d = Inr n \<and> isDirectory n"
  then have n: "map_of d ?p = Some n" "isDirectory n"
    by (auto simp: statSync_def split: option.splits)
  then show "delete_file cfg filename d =
          (\<lparr>status = 500, contentType = ''application/json'',
            payload = Json (JObject
              [(''success'', JBool False),
               (''error'', JString (''EISDIR: illegal operation on a directory, unlink ''
                   @ [CHR 0x27] @ ?p @ [CHR 0x27]))])\<rparr>, d)"
    by (simp add: delete_file_def existsSync_def unlinkSync_def res_json_def errno_text_def)
qed

theorem delete_file_contract_witness:
  "delete_file example_config ''ghost.ipa'' example_output_disk =
     (\<lparr>status = 404, contentType = ''application/json'',
       payload = Json (JObject [(''success'', JBool False),
                                (''error'', JString ''File not found'')])\<rparr>,
      example_output_disk)
   \<and> fst (delete_file example_config ''old_signed_7.ipa'' example_output_disk) =
       \<lparr>status = 200, contentType = ''application/json'',
        payload = Json (JObject [(''success'', JBool True),
                                 (''message'', JString ''File deleted successfully'')])\<rparr>
   \<and> \<not> existsSync ''/srv/output/old_signed_7.ipa''
         (snd (delete_file example_config ''old_signed_7.ipa'' example_output_disk))
   \<and> delete_file example_config ''../uploads'' example_output_disk =
     (\<lparr>status = 500, contentType = ''application/json'',
       payload = Json (JObject
         [(''success'', JBool False),
          (''error'', JString (''EISDIR: illegal operation on a directory, unlink ''
              @ [CHR 0x27] @ ''/srv/uploads'' @ [CHR 0x27]))])\<rparr>,
      example_output_disk)"
proof -
  have "path_join ''/srv/output'' ''ghost.ipa'' = ''/srv/output/ghost.ipa''"
    by code_simp
  then have g: "path_join (OUTPUT_DIR example_config) ''ghost.ipa'' = ''/srv/output/ghost.ipa''"
    by (simp add: example_config_def)
  have "path_join ''/srv/output'' ''old_signed_7.ipa'' = ''/srv/output/old_signed_7.ipa''"
    by code_simp
  then have o: "path_join (OUTPUT_DIR example_config) ''old_signed_7.ipa''
      = ''/srv/output/old_signed_7.ipa''"
    by (simp add: example_config_def)
  have "path_join ''/srv/output'' ''../uploads'' = ''/srv/uploads''"
    by code_simp
  then have u: "path_join (OUTPUT_DIR example_config) ''../uploads'' = ''/srv/uploads''"
    by (simp add: example_config_def)
  have ng: "\<not> existsSync (path_join (OUTPUT_DIR example_config) ''ghost.ipa'') example_output_disk"
    unfolding g by (simp add: existsSync_def example_output_disk_def)
  have st: "statSync (path_join (OUTPUT_DIR example_config) ''old_signed_7.ipa'')
      example_output_disk = Inr (regular 100 7) \<and> \<not> isDirectory (regular 100 7)"
    unfolding o by (simp add: statSync_def example_output_disk_def regular_def)
  have sd: "statSync (path_join (OUTPUT_DIR example_config) ''../uploads'')
      example_output_disk = Inr (directory 1) \<and> isDirectory (directory 1)"
    unfolding u by (simp add: statSync_def example_output_disk_def directory_def)
  note c = delete_file_contract [of example_config _ example_output_disk]
  from c [of "''ghost.ipa''"] ng have 1:
    "delete_file example_config ''ghost.ipa'' example_output_disk =
     (\<lparr>status = 404, contentType = ''application/json'',
       payload = Json (JObject [(''success'', JBool False),
                                (''error'', JString ''File not found'')])\<rparr>,
      example_output_disk)"
    by blast
  from c [of "''../uploads''"] sd have 3:
    "delete_file example_config ''../uploads'' example_output_disk =
     (\<lparr>status = 500, contentType = ''application/json'',
       payload = Json (JObject
         [(''success'', JBool False),
          (''error'', JString (''EISDIR: illegal operation on a directory, unlink ''
              @ [CHR 0x27] @ path_join (OUTPUT_DIR example_config) ''../uploads''
              @ [CHR 0x27]))])\<rparr>,
      example_output_disk)"
    by blast
  from c [of "''old_signed_7.ipa''"] st obtain d' where
    "delete_file example_config ''old_signed_7.ipa'' example_output_disk =
       (\<lparr>status = 200, contentType = ''application/json'',
         payload = Json (JObject [(''success'', JBool True),
                                  (''message'', JString ''File deleted successfully'')])\<rparr>, d')"
    "\<not> existsSync (path_join (OUTPUT_DIR example_config) ''old_signed_7.ipa'') d'"
    by blast
  then show ?thesis using 1 3 [unfolded u] unfolding o by simp
qed




section \<open>Upload directories after a sign request\<close>

text \<open>
  Claim C3 says that once the tool has run, the three uploaded files are deleted and the
  temporary directory of the session no longer exists when the response is sent. The
  files are deleted, and so is the directory that held the package
  (\<open>sign_cleanup_removes_uploads\<close>). But \<open>destination\<close> draws a fresh identifier for every
  file unless a \<open>sessionId\<close> field came first: for the request of the README, three files
  and then the password, the certificate and the profile were stored in two further
  directories, and both are still on the disk after the successful response.
\<close>

theorem sign_leaves_upload_directories:
  "disk (post_sign example_config example_env
           (tool_writes ''/srv/output/MyApp_signed_123.ipa'' 4096) example_parts
           example_empty_disk) =
     [(''/srv/uploads'', directory 1), (''/srv/output'', directory 1),
      (''/srv/uploads/session-1'', directory 123),
      (''/srv/uploads/session-2'', directory 123),
      (''/srv/output/MyApp_signed_123.ipa'', regular 4096 123)]
   \<and> (\<exists>data. outcome (post_sign example_config example_env
           (tool_writes ''/srv/output/MyApp_signed_123.ipa'' 4096) example_parts
           example_empty_disk) =
         Sent \<lparr>status = 200, contentType = ''application/json'',
               payload = Json (JObject [(''success'', JBool True),
                  (''message'', JString ''IPA signed successfully''), (''data'', data)])\<rparr>)"
proof -
  have f: "files \<lparr>body = in_body example_stored, files = Some (in_files example_stored)\<rparr>
      = Some (in_files example_stored)"
    "ipa (in_files example_stored) = Some (\<lparr>originalname = ''MyApp.ipa'',
        path = ''/srv/uploads/session-0/MyApp.ipa'', size_f = 10\<rparr> # [])"
    "certificate (in_files example_stored) = Some (\<lparr>originalname = ''cert.p12'',
        path = ''/srv/uploads/session-1/cert.p12'', size_f = 5\<rparr> # [])"
    "provision (in_files example_stored) = Some (\<lparr>originalname = ''profile.mobileprovision'',
        path = ''/srv/uploads/session-2/profile.mobileprovision'', size_f = 3\<rparr> # [])"
    by (simp_all add: example_stored_def)
  show ?thesis
    unfolding example_post_sign sign_handler_present [OF f]
    by (simp add: Let_def tool_writes_def sign_callback_def example_stored_def existsSync_def
        unlinkSync_def remove_entry_def rmSync_recursive_force_def inside_def
        example_session_paths output_size_def statSync_def res_json_def
        directory_def regular_def zsign_command_flags flag_text_def field_def)
qed

end
